theory Spec2Isabelle
  imports Complex_Main "HOL-Library.AList"
begin

section \<open>Values, documents and errors\<close>

text \<open>
  The program \<^verbatim>\<open>load_zip_codes_to_mongo.py\<close> reads tab-separated rows and turns each
  row into a Python dictionary. A cell is a Python \<^verbatim>\<open>str\<close>; it is modelled as a
  \<open>string\<close>, which is exact for cells of ASCII characters. A row is the list of cells
  that \<^verbatim>\<open>csv.reader\<close> yields for one line.

  A Python \<^verbatim>\<open>float\<close> is kept as the decimal value that was parsed: \<open>Finite r\<close> stands for
  the binary64 number that Python obtains by rounding the rational \<open>r\<close>. No property
  below depends on that rounding.
\<close>

datatype pyfloat = Finite rat | PosInf | NegInf | NaN

datatype pyval = PStr string | PFloat pyfloat | PInt int | PNone

text \<open>
  A dictionary keeps its keys in insertion order: an association list. Assigning to a
  key that exists replaces the value in place (\<open>AList.update\<close>).
\<close>

type_synonym doc = "(string \<times> pyval) list"

type_synonym row = "string list"

datatype value_error =
    CouldNotConvertFloat string
  | InvalidIntLiteral string
  | UnexpectedColumns nat row

datatype error = IndexError | ValueError value_error

definition bind :: "error + 'a \<Rightarrow> ('a \<Rightarrow> error + 'b) \<Rightarrow> error + 'b" where
  "bind m f = (case m of Inl e \<Rightarrow> Inl e | Inr x \<Rightarrow> f x)"

text \<open>\<^verbatim>\<open>row[i]\<close> for a literal index \<open>i \<ge> 0\<close>: raises \<^verbatim>\<open>IndexError\<close> out of range.\<close>

definition cell :: "row \<Rightarrow> nat \<Rightarrow> error + string" where
  "cell row i = (if i < length row then Inr (row ! i) else Inl IndexError)"

section \<open>The built-ins \<^verbatim>\<open>float\<close> and \<^verbatim>\<open>int\<close> on strings\<close>

text \<open>
  Both built-ins strip surrounding whitespace, accept a sign and read decimal digits in
  which single underscores may separate digits. On an ASCII string the whitespace
  characters are tab, line feed, vertical tab, form feed, carriage return and space.
\<close>

definition is_space :: "char \<Rightarrow> bool" where
  "is_space c = (let n = (of_char c :: nat) in (9 \<le> n \<and> n \<le> 13) \<or> n = 32)"

definition is_digit :: "char \<Rightarrow> bool" where
  "is_digit c = (let n = (of_char c :: nat) in 48 \<le> n \<and> n \<le> 57)"

definition is_alpha :: "char \<Rightarrow> bool" where
  "is_alpha c = (let n = (of_char c :: nat) in (65 \<le> n \<and> n \<le> 90) \<or> (97 \<le> n \<and> n \<le> 122))"

definition lower :: "char \<Rightarrow> char" where
  "lower c =
     (case map_of (zip ''ABCDEFGHIJKLMNOPQRSTUVWXYZ'' ''abcdefghijklmnopqrstuvwxyz'') c of
        None \<Rightarrow> c
      | Some l \<Rightarrow> l)"

definition strip :: "string \<Rightarrow> string" where
  "strip s = rev (dropWhile is_space (rev (dropWhile is_space s)))"

definition digit_val :: "char \<Rightarrow> nat" where
  "digit_val c = of_char c - 48"

definition digits_value :: "string \<Rightarrow> nat" where
  "digits_value ds = foldl (\<lambda>a c. 10 * a + digit_val c) 0 ds"

text \<open>
  \<open>scan_digits s\<close> reads the longest prefix of \<open>s\<close> of the form
  \<^verbatim>\<open>digit (["_"] digit)*\<close> and returns its digits (underscores removed) with the rest
  of the string; the digits are empty when \<open>s\<close> does not start with a digit.
\<close>

fun scan_digits :: "string \<Rightarrow> string \<times> string" where
  "scan_digits [] = ([], [])"
| "scan_digits [c] = (if is_digit c then ([c], []) else ([], [c]))"
| "scan_digits (c # d # cs) =
     (if \<not> is_digit c then ([], c # d # cs)
      else if is_digit d then (let (ds, r) = scan_digits (d # cs) in (c # ds, r))
      else if d = CHR ''_'' \<and> cs \<noteq> [] \<and> is_digit (hd cs)
        then (let (ds, r) = scan_digits cs in (c # ds, r))
      else ([c], d # cs))"

text \<open>An optional sign: \<open>True\<close> for a leading minus.\<close>

definition scan_sign :: "string \<Rightarrow> bool \<times> string" where
  "scan_sign s =
     (case s of
        [] \<Rightarrow> (False, [])
      | c # cs \<Rightarrow> if c = CHR ''-'' then (True, cs)
                 else if c = CHR ''+'' then (False, cs)
                 else (False, c # cs))"

text \<open>
  \<^verbatim>\<open>int(s)\<close> in base 10. \<open>None\<close> stands for \<^verbatim>\<open>ValueError\<close>. CPython refuses a literal
  of more than 4300 digits (its default limit) with the same exception.
\<close>

definition py_int :: "string \<Rightarrow> int option" where
  "py_int s =
     (let (neg, t) = scan_sign (strip s);
          (ds, r) = scan_digits t
      in if ds = [] \<or> r \<noteq> [] \<or> length ds > 4300 then None
         else Some (if neg then - int (digits_value ds) else int (digits_value ds)))"

text \<open>
  The exponent part \<^verbatim>\<open>("e" | "E") [sign] digitpart\<close>, or nothing. The result is the
  exponent; \<open>None\<close> when what is left is neither.
\<close>

definition scan_exponent :: "string \<Rightarrow> int option" where
  "scan_exponent s =
     (case s of
        [] \<Rightarrow> Some 0
      | c # cs \<Rightarrow>
          if c = CHR ''e'' \<or> c = CHR ''E'' then
            (let (neg, t) = scan_sign cs;
                 (ds, r) = scan_digits t
             in if ds = [] \<or> r \<noteq> [] then None
                else Some (if neg then - int (digits_value ds) else int (digits_value ds)))
          else None)"

definition scale10 :: "nat \<Rightarrow> int \<Rightarrow> rat" where
  "scale10 m e = (if 0 \<le> e then of_nat m * 10 ^ nat e else of_nat m / 10 ^ nat (- e))"

text \<open>
  \<^verbatim>\<open>float(s)\<close>: \<^verbatim>\<open>[sign] (floatnumber | "inf" | "infinity" | "nan")\<close>, letters in any
  case, where \<^verbatim>\<open>floatnumber\<close> is \<^verbatim>\<open>([digitpart] "." digitpart | digitpart ["."]) [exponent]\<close>.
\<close>

definition py_float :: "string \<Rightarrow> pyfloat option" where
  "py_float s =
     (let (neg, t) = scan_sign (strip s);
          w = map lower t
      in if w = ''inf'' \<or> w = ''infinity'' then Some (if neg then NegInf else PosInf)
         else if w = ''nan'' then Some NaN
         else
           (let (ip, r1) = scan_digits t;
                (fp, r2) = (case r1 of
                              [] \<Rightarrow> ([], [])
                            | c # cs \<Rightarrow> if c = CHR ''.'' then scan_digits cs else ([], c # cs))
            in if ip = [] \<and> fp = [] then None
               else
                 (case scan_exponent r2 of
                    None \<Rightarrow> None
                  | Some e \<Rightarrow>
                      (let v = scale10 (digits_value (ip @ fp)) (e - int (length fp))
                       in Some (Finite (if neg then - v else v))))))"

text \<open>The conditional expressions of the mappers.\<close>

text \<open>\<^verbatim>\<open>c if c else None\<close>\<close>

definition str_or_none :: "string \<Rightarrow> pyval" where
  "str_or_none c = (if c \<noteq> [] then PStr c else PNone)"

text \<open>\<^verbatim>\<open>float(c) if c else None\<close>\<close>

definition float_or_none :: "string \<Rightarrow> error + pyval" where
  "float_or_none c =
     (if c \<noteq> [] then
        (case py_float c of
           None \<Rightarrow> Inl (ValueError (CouldNotConvertFloat c))
         | Some x \<Rightarrow> Inr (PFloat x))
      else Inr PNone)"

text \<open>\<^verbatim>\<open>int(c) if c else None\<close>\<close>

definition int_or_none :: "string \<Rightarrow> error + pyval" where
  "int_or_none c =
     (if c \<noteq> [] then
        (case py_int c of
           None \<Rightarrow> Inl (ValueError (InvalidIntLiteral c))
         | Some n \<Rightarrow> Inr (PInt n))
      else Inr PNone)"

section \<open>The field mappers\<close>

text \<open>
  \<^verbatim>\<open>map_es_fields\<close> (lines 87 to 101). A dictionary display evaluates its values from
  top to bottom, so the first cell that is missing or does not convert decides the
  exception.
\<close>

definition map_es_fields :: "row \<Rightarrow> error + doc" where
  "map_es_fields row =
     bind (cell row 0) (\<lambda>c0.
     bind (cell row 1) (\<lambda>c1.
     bind (cell row 2) (\<lambda>c2.
     bind (cell row 3) (\<lambda>c3.
     bind (cell row 4) (\<lambda>c4.
     bind (cell row 5) (\<lambda>c5.
     bind (cell row 6) (\<lambda>c6.
     bind (cell row 7) (\<lambda>c7.
     bind (cell row 8) (\<lambda>c8.
     bind (bind (cell row 9) float_or_none) (\<lambda>lat.
     bind (bind (cell row 10) float_or_none) (\<lambda>lon.
     bind (bind (cell row 11) int_or_none) (\<lambda>acc.
       Inr [(''country_code'', PStr c0),
            (''postal_code'', PStr c1),
            (''place_name'', PStr c2),
            (''admin1_name'', PStr c3),
            (''admin1_code'', PStr c4),
            (''admin2_name'', PStr c5),
            (''admin2_code'', PStr c6),
            (''admin3_name'', str_or_none c7),
            (''admin3_code'', str_or_none c8),
            (''latitude'', lat),
            (''longitude'', lon),
            (''accuracy'', acc)]))))))))))))"

text \<open>\<^verbatim>\<open>map_us_fields\<close> (lines 103 to 116): cells 7 and 8 are not read at all.\<close>

definition map_us_fields :: "row \<Rightarrow> error + doc" where
  "map_us_fields row =
     bind (cell row 0) (\<lambda>c0.
     bind (cell row 1) (\<lambda>c1.
     bind (cell row 2) (\<lambda>c2.
     bind (cell row 3) (\<lambda>c3.
     bind (cell row 4) (\<lambda>c4.
     bind (cell row 5) (\<lambda>c5.
     bind (cell row 6) (\<lambda>c6.
     bind (bind (cell row 9) float_or_none) (\<lambda>lat.
     bind (bind (cell row 10) float_or_none) (\<lambda>lon.
     bind (bind (cell row 11) int_or_none) (\<lambda>acc.
       Inr [(''country_code'', PStr c0),
            (''postal_code'', PStr c1),
            (''place_name'', PStr c2),
            (''admin1_name'', PStr c3),
            (''admin1_code'', PStr c4),
            (''admin2_name'', PStr c5),
            (''admin2_code'', PStr c6),
            (''latitude'', lat),
            (''longitude'', lon),
            (''accuracy'', acc)]))))))))))"

text \<open>
  What the program prints. Only the kind of message and the values it interpolates are
  kept, not its wording.
\<close>

datatype log_msg =
    Starting
  | FileNotFound string
  | Processing string string
  | SkipConversion nat string error row
  | SkipUnexpected nat string error row
  | SkipHeader string row
  | SkipMalformed nat string "nat list" nat row
  | Finished string
  | Inserted nat string
  | Skipped nat string
  | Separator
  | WarnCA nat row error
  | AllProcessed

text \<open>
  \<^verbatim>\<open>map_ca_fields_flexible\<close> (lines 118 to 163). The dictionary display of lines 120 to
  133 reads cells 0, 1 and 2 unguarded and cells 3 and 4 behind a length test.
\<close>

text \<open>\<^verbatim>\<open>row[i] if len(row) > i and row[i] else None\<close>\<close>

definition guarded_cell :: "row \<Rightarrow> nat \<Rightarrow> error + pyval" where
  "guarded_cell row i =
     (if length row > i then bind (cell row i) (\<lambda>c. Inr (str_or_none c)) else Inr PNone)"

definition ca_initial_doc :: "row \<Rightarrow> error + doc" where
  "ca_initial_doc row =
     bind (cell row 0) (\<lambda>c0.
     bind (cell row 1) (\<lambda>c1.
     bind (cell row 2) (\<lambda>c2.
     bind (guarded_cell row 3) (\<lambda>a1n.
     bind (guarded_cell row 4) (\<lambda>a1c.
       Inr [(''country_code'', PStr c0),
            (''postal_code'', PStr c1),
            (''place_name'', PStr c2),
            (''admin1_name'', a1n),
            (''admin1_code'', a1c),
            (''admin2_name'', PNone),
            (''admin2_code'', PNone),
            (''admin3_name'', PNone),
            (''admin3_code'', PNone),
            (''latitude'', PNone),
            (''longitude'', PNone),
            (''accuracy'', PNone)])))))"

text \<open>\<^verbatim>\<open>doc[key] = row[i] if row[i] else None\<close>\<close>

definition assign_str :: "string \<Rightarrow> row \<Rightarrow> nat \<Rightarrow> doc \<Rightarrow> error + doc" where
  "assign_str key row i d =
     bind (cell row i) (\<lambda>c. Inr (AList.update key (str_or_none c) d))"

text \<open>
  The body of the \<^verbatim>\<open>try\<close> statement (lines 141 to 143 with \<open>k = 7\<close>, lines 154 to 156
  with \<open>k = 9\<close>): three assignments in sequence. An exception leaves the dictionary as
  the assignments before it made it; the handler catches \<^verbatim>\<open>IndexError\<close> and
  \<^verbatim>\<open>ValueError\<close>, that is every error of this model, and prints a warning.
\<close>

definition ca_try_body :: "row \<Rightarrow> nat \<Rightarrow> doc \<Rightarrow> doc \<times> error option" where
  "ca_try_body row k d =
     (case bind (cell row k) float_or_none of
        Inl e \<Rightarrow> (d, Some e)
      | Inr lat \<Rightarrow>
          (let d1 = AList.update ''latitude'' lat d in
           case bind (cell row (k + 1)) float_or_none of
             Inl e \<Rightarrow> (d1, Some e)
           | Inr lon \<Rightarrow>
               (let d2 = AList.update ''longitude'' lon d1 in
                case bind (cell row (k + 2)) int_or_none of
                  Inl e \<Rightarrow> (d2, Some e)
                | Inr acc \<Rightarrow> (AList.update ''accuracy'' acc d2, None))))"

definition ca_try :: "row \<Rightarrow> nat \<Rightarrow> doc \<Rightarrow> doc \<times> log_msg list" where
  "ca_try row k d =
     (case ca_try_body row k d of
        (d', None) \<Rightarrow> (d', [])
      | (d', Some e) \<Rightarrow> (d', [WarnCA (length row) row e]))"

text \<open>A mapper returns a dictionary or raises, and may print on the way.\<close>

type_synonym mapper = "row \<Rightarrow> (error + doc) \<times> log_msg list"

definition raise :: "error \<Rightarrow> (error + doc) \<times> log_msg list" where
  "raise e = (Inl e, [])"

definition map_ca_fields_flexible :: mapper where
  "map_ca_fields_flexible row =
     (case ca_initial_doc row of
        Inl e \<Rightarrow> raise e
      | Inr d \<Rightarrow>
          (let num_cols = length row in
           if num_cols = 10 then
             (case bind (assign_str ''admin2_name'' row 5 d) (assign_str ''admin2_code'' row 6) of
                Inl e \<Rightarrow> raise e
              | Inr d1 \<Rightarrow> (let (d2, w) = ca_try row 7 d1 in (Inr d2, w)))
           else if num_cols = 12 then
             (case bind (assign_str ''admin2_name'' row 5 d) (\<lambda>d1.
                   bind (assign_str ''admin2_code'' row 6 d1) (\<lambda>d2.
                   bind (assign_str ''admin3_name'' row 7 d2)
                        (assign_str ''admin3_code'' row 8))) of
                Inl e \<Rightarrow> raise e
              | Inr d1 \<Rightarrow> (let (d2, w) = ca_try row 9 d1 in (Inr d2, w)))
           else raise (ValueError (UnexpectedColumns num_cols row))))"

text \<open>The Spain and US mappers print nothing.\<close>

definition silent :: "(row \<Rightarrow> error + doc) \<Rightarrow> mapper" where
  "silent f row = (f row, [])"

section \<open>The database and the file loop\<close>

text \<open>
  The database handle: the documents each collection holds, and the operations issued
  so far, oldest first. \<^verbatim>\<open>collection.drop()\<close> removes the collection;
  \<^verbatim>\<open>collection.insert_many(docs)\<close> appends the documents, creating the collection when
  it does not exist. Both are taken to succeed, and the \<^verbatim>\<open>_id\<close> key that the driver adds
  to a stored document is left out.
\<close>

datatype db_op = Drop string | InsertMany string "doc list"

record database =
  contents :: "string \<rightharpoonup> doc list"
  calls :: "db_op list"

definition drop_collection :: "string \<Rightarrow> database \<Rightarrow> database" where
  "drop_collection name d =
     d\<lparr>contents := (contents d)(name := None), calls := calls d @ [Drop name]\<rparr>"

definition insert_many :: "string \<Rightarrow> doc list \<Rightarrow> database \<Rightarrow> database" where
  "insert_many name docs d =
     d\<lparr>contents := (contents d)(name \<mapsto>
          (case contents d name of None \<Rightarrow> [] | Some old \<Rightarrow> old) @ docs),
       calls := calls d @ [InsertMany name docs]\<rparr>"

text \<open>The files: a path that exists maps to the rows \<^verbatim>\<open>csv.reader\<close> yields for it.\<close>

type_synonym filesystem = "string \<rightharpoonup> row list"

text \<open>\<^verbatim>\<open>s.isalpha()\<close> and \<^verbatim>\<open>s.isdigit()\<close> on ASCII strings.\<close>

definition str_isalpha :: "string \<Rightarrow> bool" where
  "str_isalpha s = (s \<noteq> [] \<and> list_all is_alpha s)"

definition str_isdigit :: "string \<Rightarrow> bool" where
  "str_isdigit s = (s \<noteq> [] \<and> list_all is_digit s)"

definition is_likely_header :: "row \<Rightarrow> bool" where
  "is_likely_header row =
     (list_ex str_isalpha row \<and> \<not> list_ex str_isdigit (take 2 row))"

text \<open>The local variables of \<^verbatim>\<open>process_file\<close>, the database and the output.\<close>

record loop_state =
  documents :: "doc list"
  processed_count :: nat
  skipped_count :: nat
  db :: database
  out :: "log_msg list"

text \<open>Lines 53 to 70: one row, with its 0-based index \<open>i\<close>.\<close>

definition classify_row ::
  "string \<Rightarrow> nat list \<Rightarrow> mapper \<Rightarrow> nat \<Rightarrow> row \<Rightarrow> loop_state \<Rightarrow> loop_state" where
  "classify_row filepath expected_columns_list field_mapper_func i row st =
     (if length row \<in> set expected_columns_list then
        (case field_mapper_func row of
           (Inr d, w) \<Rightarrow>
             st\<lparr>documents := documents st @ [d],
                processed_count := processed_count st + 1,
                out := out st @ w\<rparr>
         | (Inl (ValueError m), w) \<Rightarrow>
             st\<lparr>skipped_count := skipped_count st + 1,
                out := out st @ w @ [SkipConversion (i + 1) filepath (ValueError m) row]\<rparr>
         | (Inl IndexError, w) \<Rightarrow>
             st\<lparr>skipped_count := skipped_count st + 1,
                out := out st @ w @ [SkipUnexpected (i + 1) filepath IndexError row]\<rparr>)
      else
        st\<lparr>skipped_count := skipped_count st + 1,
           out := out st @
             [if i = 0 \<and> is_likely_header row then SkipHeader filepath row
              else SkipMalformed (i + 1) filepath expected_columns_list (length row) row]\<rparr>)"

text \<open>Lines 72 to 75.\<close>

definition flush_if_full :: "string \<Rightarrow> loop_state \<Rightarrow> loop_state" where
  "flush_if_full collection_name st =
     (if length (documents st) \<ge> 10000 then
        (if documents st \<noteq> [] then
           st\<lparr>db := insert_many collection_name (documents st) (db st), documents := []\<rparr>
         else st)
      else st)"

definition process_row ::
  "string \<Rightarrow> string \<Rightarrow> nat list \<Rightarrow> mapper \<Rightarrow> nat \<Rightarrow> row \<Rightarrow> loop_state \<Rightarrow> loop_state" where
  "process_row filepath collection_name expected_columns_list field_mapper_func i row st =
     flush_if_full collection_name
       (classify_row filepath expected_columns_list field_mapper_func i row st)"

text \<open>The \<^verbatim>\<open>for\<close> loop over \<^verbatim>\<open>enumerate(reader)\<close>, from index \<open>i\<close> on.\<close>

fun process_rows ::
  "string \<Rightarrow> string \<Rightarrow> nat list \<Rightarrow> mapper \<Rightarrow> nat \<Rightarrow> row list \<Rightarrow> loop_state \<Rightarrow> loop_state" where
  "process_rows filepath collection_name expected mapper i [] st = st"
| "process_rows filepath collection_name expected mapper i (row # rows) st =
     process_rows filepath collection_name expected mapper (Suc i) rows
       (process_row filepath collection_name expected mapper i row st)"

text \<open>Lines 77 and 78.\<close>

definition final_flush :: "string \<Rightarrow> loop_state \<Rightarrow> loop_state" where
  "final_flush collection_name st =
     (if documents st \<noteq> [] then
        st\<lparr>db := insert_many collection_name (documents st) (db st)\<rparr>
      else st)"

text \<open>Lines 42 to 78: the state when the \<^verbatim>\<open>with\<close> block is left.\<close>

definition file_loop ::
  "database \<Rightarrow> string \<Rightarrow> string \<Rightarrow> nat list \<Rightarrow> mapper \<Rightarrow> row list \<Rightarrow> loop_state" where
  "file_loop d filepath collection_name expected_columns_list field_mapper_func rows =
     final_flush collection_name
       (process_rows filepath collection_name expected_columns_list field_mapper_func 0 rows
          \<lparr>documents = [], processed_count = 0, skipped_count = 0,
           db = drop_collection collection_name d,
           out = [Processing filepath collection_name]\<rparr>)"

text \<open>
  \<^verbatim>\<open>process_file\<close> (lines 34 to 84) returns nothing; its effects are the new state of
  the database and what it printed.
\<close>

definition process_file ::
  "filesystem \<Rightarrow> database \<Rightarrow> string \<Rightarrow> string \<Rightarrow> nat list \<Rightarrow> mapper
     \<Rightarrow> database \<times> log_msg list" where
  "process_file fs d filepath collection_name expected_columns_list field_mapper_func =
     (case fs filepath of
        None \<Rightarrow> (d, [FileNotFound filepath])
      | Some rows \<Rightarrow>
          (let st = file_loop d filepath collection_name expected_columns_list
                      field_mapper_func rows
           in (db st,
               out st @
               [Finished filepath, Inserted (processed_count st) collection_name] @
               (if skipped_count st > 0 then [Skipped (skipped_count st) filepath] else []) @
               [Separator])))"

definition ES_FILE :: string where "ES_FILE = ''ES.txt''"
definition US_FILE :: string where "US_FILE = ''US.txt''"
definition CA_FILE :: string where "CA_FILE = ''CA_full.txt''"

text \<open>
  The main block (lines 165 to 181), given the handle that \<^verbatim>\<open>connect_to_db\<close> returned.
\<close>

definition main :: "filesystem \<Rightarrow> database \<Rightarrow> database \<times> log_msg list" where
  "main fs d0 =
     (let (d1, o1) = process_file fs d0 ES_FILE ''es_zip_codes'' [12] (silent map_es_fields);
          (d2, o2) = process_file fs d1 US_FILE ''us_zip_codes'' [12] (silent map_us_fields);
          (d3, o3) = process_file fs d2 CA_FILE ''ca_zip_codes'' [10, 12] map_ca_fields_flexible
      in (d3, [Starting] @ o1 @ o2 @ o3 @ [AllProcessed]))"

section \<open>What the loop writes\<close>

text \<open>
  The records of a file: the dictionaries of the rows whose cell count is expected and
  that the mapper converts, in file order.
\<close>

definition mapped_record :: "nat list \<Rightarrow> mapper \<Rightarrow> row \<Rightarrow> doc option" where
  "mapped_record expected mapper row =
     (if length row \<in> set expected then
        (case fst (mapper row) of Inr d \<Rightarrow> Some d | Inl e \<Rightarrow> None)
      else None)"

definition mapped_records :: "nat list \<Rightarrow> mapper \<Rightarrow> row list \<Rightarrow> doc list" where
  "mapped_records expected mapper rows = List.map_filter (mapped_record expected mapper) rows"

text \<open>
  A sequence cut into bulk writes as the batch writer is described: pieces of 10000
  from the front, and the remainder if it is not empty.
\<close>

function batches :: "'a list \<Rightarrow> 'a list list" where
  "batches xs = (if xs = [] then [] else take 10000 xs # batches (drop 10000 xs))"
  by pat_completeness auto
termination
  by (relation "measure length") auto

declare batches.simps [simp del]

text \<open>The bulk writes \<open>bs\<close> issued one after the other on collection \<open>c\<close>.\<close>

definition write_all :: "string \<Rightarrow> doc list list \<Rightarrow> database \<Rightarrow> database" where
  "write_all c bs d = foldl (\<lambda>d b. insert_many c b d) d bs"

text \<open>
  Vocabulary for the Canada mapper: the fields that do not depend on a numeric
  conversion, and a cell that is not empty and does not convert.
\<close>

definition ca_fixed_fields :: "row \<Rightarrow> doc" where
  "ca_fixed_fields row =
     [(''country_code'', PStr (row ! 0)),
      (''postal_code'', PStr (row ! 1)),
      (''place_name'', PStr (row ! 2)),
      (''admin1_name'', str_or_none (row ! 3)),
      (''admin1_code'', str_or_none (row ! 4)),
      (''admin2_name'', str_or_none (row ! 5)),
      (''admin2_code'', str_or_none (row ! 6)),
      (''admin3_name'', if length row = 12 then str_or_none (row ! 7) else PNone),
      (''admin3_code'', if length row = 12 then str_or_none (row ! 8) else PNone)]"

definition float_cell_fails :: "string \<Rightarrow> bool" where
  "float_cell_fails c = (c \<noteq> [] \<and> py_float c = None)"

definition int_cell_fails :: "string \<Rightarrow> bool" where
  "int_cell_fails c = (c \<noteq> [] \<and> py_int c = None)"

section \<open>Auxiliary facts\<close>

subsection \<open>Cells and conversions\<close>

lemma cell_in_range: "i < length row \<Longrightarrow> cell row i = Inr (row ! i)"
  by (simp add: cell_def)

lemma bind_Inr: "bind (Inr x) f = f x"
  by (simp add: bind_def)

lemma map_es_fields_12:
  "length row = 12 \<Longrightarrow>
   map_es_fields row =
     bind (float_or_none (row ! 9)) (\<lambda>lat.
     bind (float_or_none (row ! 10)) (\<lambda>lon.
     bind (int_or_none (row ! 11)) (\<lambda>acc.
       Inr [(''country_code'', PStr (row ! 0)),
            (''postal_code'', PStr (row ! 1)),
            (''place_name'', PStr (row ! 2)),
            (''admin1_name'', PStr (row ! 3)),
            (''admin1_code'', PStr (row ! 4)),
            (''admin2_name'', PStr (row ! 5)),
            (''admin2_code'', PStr (row ! 6)),
            (''admin3_name'', str_or_none (row ! 7)),
            (''admin3_code'', str_or_none (row ! 8)),
            (''latitude'', lat),
            (''longitude'', lon),
            (''accuracy'', acc)])))"
  by (simp add: map_es_fields_def cell_in_range bind_Inr)

lemma map_us_fields_12:
  "length row = 12 \<Longrightarrow>
   map_us_fields row =
     bind (float_or_none (row ! 9)) (\<lambda>lat.
     bind (float_or_none (row ! 10)) (\<lambda>lon.
     bind (int_or_none (row ! 11)) (\<lambda>acc.
       Inr [(''country_code'', PStr (row ! 0)),
            (''postal_code'', PStr (row ! 1)),
            (''place_name'', PStr (row ! 2)),
            (''admin1_name'', PStr (row ! 3)),
            (''admin1_code'', PStr (row ! 4)),
            (''admin2_name'', PStr (row ! 5)),
            (''admin2_code'', PStr (row ! 6)),
            (''latitude'', lat),
            (''longitude'', lon),
            (''accuracy'', acc)])))"
  by (simp add: map_us_fields_def cell_in_range bind_Inr)

lemma us_mapper_key_list: "map_us_fields row = Inr d \<Longrightarrow>
    map fst d = [''country_code'', ''postal_code'', ''place_name'', ''admin1_name'',
                 ''admin1_code'', ''admin2_name'', ''admin2_code'', ''latitude'',
                 ''longitude'', ''accuracy'']"
  by (auto simp add: map_us_fields_def bind_def split: sum.splits)

lemma float_or_none_Inl:
  "(\<exists>e. float_or_none c = Inl e) \<longleftrightarrow> c \<noteq> [] \<and> py_float c = None"
  by (auto simp add: float_or_none_def split: option.splits)

lemma int_or_none_Inl:
  "(\<exists>e. int_or_none c = Inl e) \<longleftrightarrow> c \<noteq> [] \<and> py_int c = None"
  by (auto simp add: int_or_none_def split: option.splits)

lemma float_or_none_ValueError:
  "float_or_none c = Inl e \<Longrightarrow> \<exists>m. e = ValueError m"
  by (auto simp add: float_or_none_def split: option.splits if_splits)

lemma int_or_none_ValueError:
  "int_or_none c = Inl e \<Longrightarrow> \<exists>m. e = ValueError m"
  by (auto simp add: int_or_none_def split: option.splits if_splits)

lemma es_us_raise_iff:
  assumes "f = map_es_fields \<or> f = map_us_fields" and "length row = 12"
  shows "(\<exists>e. f row = Inl e) \<longleftrightarrow>
           (row ! 9 \<noteq> [] \<and> py_float (row ! 9) = None) \<or>
           (row ! 10 \<noteq> [] \<and> py_float (row ! 10) = None) \<or>
           (row ! 11 \<noteq> [] \<and> py_int (row ! 11) = None)"
proof -
  have "(\<exists>e. f row = Inl e) \<longleftrightarrow>
          (\<exists>e. float_or_none (row ! 9) = Inl e) \<or> (\<exists>e. float_or_none (row ! 10) = Inl e) \<or>
          (\<exists>e. int_or_none (row ! 11) = Inl e)"
    using assms
    by (auto simp add: map_es_fields_12 map_us_fields_12 bind_def split: sum.splits)
  then show ?thesis
    by (simp only: float_or_none_Inl int_or_none_Inl)
qed

lemma es_us_raise_ValueError:
  assumes "f = map_es_fields \<or> f = map_us_fields" and "length row = 12" and "f row = Inl e"
  shows "\<exists>m. e = ValueError m"
  using assms
  by (auto simp add: map_es_fields_12 map_us_fields_12 bind_def split: sum.splits
      dest: float_or_none_ValueError int_or_none_ValueError)

lemma es_us_returns_iff:
  assumes "f = map_es_fields \<or> f = map_us_fields" and "length row = 12"
  shows "(\<exists>d. f row = Inr d) \<longleftrightarrow>
           (row ! 9 = [] \<or> py_float (row ! 9) \<noteq> None) \<and>
           (row ! 10 = [] \<or> py_float (row ! 10) \<noteq> None) \<and>
           (row ! 11 = [] \<or> py_int (row ! 11) \<noteq> None)"
proof -
  have "(\<exists>d. f row = Inr d) \<longleftrightarrow> \<not> (\<exists>e. f row = Inl e)"
    by (cases "f row") simp_all
  with es_us_raise_iff [OF assms] show ?thesis
    by auto
qed

subsection \<open>The Canada mapper\<close>

lemma float_or_none_fails: "float_cell_fails c \<longleftrightarrow> (\<exists>e. float_or_none c = Inl e)"
  by (simp add: float_cell_fails_def float_or_none_Inl)

lemma int_or_none_fails: "int_cell_fails c \<longleftrightarrow> (\<exists>e. int_or_none c = Inl e)"
  by (simp add: int_cell_fails_def int_or_none_Inl)

lemma ca_initial_doc_Inr: "3 \<le> length row \<Longrightarrow> \<exists>d. ca_initial_doc row = Inr d"
  by (cases row) (auto simp add: ca_initial_doc_def guarded_cell_def cell_def bind_def)

lemma ca_try_body_in_range:
  "k + 2 < length row \<Longrightarrow>
   ca_try_body row k d =
     (case float_or_none (row ! k) of
        Inl e \<Rightarrow> (d, Some e)
      | Inr lat \<Rightarrow>
          (case float_or_none (row ! (k + 1)) of
             Inl e \<Rightarrow> (AList.update ''latitude'' lat d, Some e)
           | Inr lon \<Rightarrow>
               (case int_or_none (row ! (k + 2)) of
                  Inl e \<Rightarrow> (AList.update ''longitude'' lon (AList.update ''latitude'' lat d), Some e)
                | Inr acc \<Rightarrow>
                    (AList.update ''accuracy'' acc
                       (AList.update ''longitude'' lon (AList.update ''latitude'' lat d)), None))))"
  by (simp add: ca_try_body_def cell_in_range bind_Inr Let_def split: sum.splits)

lemma map_ca_10_12:
  assumes "length row = 10 \<or> length row = 12"
  shows "map_ca_fields_flexible row =
           (let (d2, w) = ca_try row (if length row = 10 then 7 else 9)
                            (ca_fixed_fields row @
                             [(''latitude'', PNone), (''longitude'', PNone), (''accuracy'', PNone)])
            in (Inr d2, w))"
  using assms
  by (auto simp add: map_ca_fields_flexible_def ca_initial_doc_def guarded_cell_def assign_str_def
      cell_in_range bind_Inr ca_fixed_fields_def Let_def)

lemma ca_try_result:
  assumes "k + 2 < length row"
  shows "\<exists>lat lon acc w.
           ca_try row k (ca_fixed_fields row @
              [(''latitude'', PNone), (''longitude'', PNone), (''accuracy'', PNone)]) =
             (ca_fixed_fields row @
                [(''latitude'', lat), (''longitude'', lon), (''accuracy'', acc)], w) \<and>
           (float_cell_fails (row ! k) \<longrightarrow> lat = PNone \<and> lon = PNone \<and> acc = PNone) \<and>
           (\<not> float_cell_fails (row ! k) \<longrightarrow> float_or_none (row ! k) = Inr lat) \<and>
           (\<not> float_cell_fails (row ! k) \<and> float_cell_fails (row ! (k + 1)) \<longrightarrow>
              lon = PNone \<and> acc = PNone) \<and>
           (\<not> float_cell_fails (row ! k) \<and> \<not> float_cell_fails (row ! (k + 1)) \<longrightarrow>
              float_or_none (row ! (k + 1)) = Inr lon) \<and>
           (\<not> float_cell_fails (row ! k) \<and> \<not> float_cell_fails (row ! (k + 1)) \<and>
            int_cell_fails (row ! (k + 2)) \<longrightarrow> acc = PNone) \<and>
           (\<not> float_cell_fails (row ! k) \<and> \<not> float_cell_fails (row ! (k + 1)) \<and>
            \<not> int_cell_fails (row ! (k + 2)) \<longrightarrow> int_or_none (row ! (k + 2)) = Inr acc \<and> w = []) \<and>
           (float_cell_fails (row ! k) \<or> float_cell_fails (row ! (k + 1)) \<or>
            int_cell_fails (row ! (k + 2)) \<longrightarrow> (\<exists>e. w = [WarnCA (length row) row e]))"
  unfolding float_or_none_fails int_or_none_fails
  by (cases "float_or_none (row ! k)"; cases "float_or_none (row ! (k + 1))";
      cases "int_or_none (row ! (k + 2))")
     (simp_all add: ca_try_def ca_try_body_in_range [OF assms] ca_fixed_fields_def)

subsection \<open>Cutting a sequence into bulk writes\<close>

lemma batches_Nil: "batches [] = []"
  by (simp add: batches.simps)

lemma batches_short: "xs \<noteq> [] \<Longrightarrow> length xs \<le> 10000 \<Longrightarrow> batches xs = [xs]"
  by (subst batches.simps) (simp add: batches_Nil)

lemma batches_full: "length xs = 10000 \<Longrightarrow> batches (xs @ ys) = xs # batches ys"
  by (subst batches.simps) auto

lemma batches_eq_Nil: "batches xs = [] \<longleftrightarrow> xs = []"
  by (subst batches.simps) simp

lemma concat_batches: "concat (batches xs) = xs"
proof (induction xs rule: batches.induct)
  case (1 xs)
  show ?case
  proof (cases "xs = []")
    case True
    then show ?thesis by (simp add: batches_Nil)
  next
    case False
    with 1 have "concat (batches (drop 10000 xs)) = drop 10000 xs" by simp
    with False show ?thesis by (subst batches.simps) simp
  qed
qed

lemma batches_sizes: "b \<in> set (batches xs) \<Longrightarrow> 0 < length b \<and> length b \<le> 10000"
proof (induction xs rule: batches.induct)
  case (1 xs)
  show ?case
  proof (cases "xs = []")
    case True
    with 1(2) show ?thesis by (simp add: batches_Nil)
  next
    case False
    from 1(2) False have "b = take 10000 xs \<or> b \<in> set (batches (drop 10000 xs))"
      by (subst (asm) batches.simps) simp
    then show ?thesis
    proof
      assume "b = take 10000 xs"
      with False show ?thesis by (cases xs) auto
    next
      assume "b \<in> set (batches (drop 10000 xs))"
      with 1(1) False show ?thesis by simp
    qed
  qed
qed

lemma batches_butlast: "b \<in> set (butlast (batches xs)) \<Longrightarrow> length b = 10000"
proof (induction xs rule: batches.induct)
  case (1 xs)
  show ?case
  proof (cases "length xs \<le> 10000")
    case True
    with 1(2) show ?thesis by (cases "xs = []") (simp_all add: batches_Nil batches_short)
  next
    case False
    then have ne: "xs \<noteq> []" and dne: "drop 10000 xs \<noteq> []" by auto
    from dne have bne: "batches (drop 10000 xs) \<noteq> []"
      by (subst batches.simps) simp
    from ne have eq: "batches xs = take 10000 xs # batches (drop 10000 xs)"
      by (subst batches.simps) simp
    from 1(2) eq bne have "b = take 10000 xs \<or> b \<in> set (butlast (batches (drop 10000 xs)))"
      by simp
    then show ?thesis
    proof
      assume "b = take 10000 xs"
      with False show ?thesis by simp
    next
      assume "b \<in> set (butlast (batches (drop 10000 xs)))"
      with 1(1) ne show ?thesis by simp
    qed
  qed
qed

lemma batches_10001:
  assumes "length xs = 10001"
  shows "batches xs = [take 10000 xs, drop 10000 xs]"
proof -
  from assms have ne: "xs \<noteq> []" by auto
  from assms have "drop 10000 xs \<noteq> []" and "length (drop 10000 xs) \<le> 10000" by auto
  then have "batches (drop 10000 xs) = [drop 10000 xs]" by (rule batches_short)
  with ne show ?thesis by (subst batches.simps) simp
qed

subsection \<open>The loop\<close>

lemma mapped_records_Nil: "mapped_records ex m [] = []"
  by (simp add: mapped_records_def)

lemma mapped_records_Cons:
  "mapped_records ex m (row # rows) =
     (case mapped_record ex m row of None \<Rightarrow> [] | Some d \<Rightarrow> [d]) @ mapped_records ex m rows"
  by (simp add: mapped_records_def split: option.splits)

lemma mapped_records_append:
  "mapped_records ex m (xs @ ys) = mapped_records ex m xs @ mapped_records ex m ys"
  by (induction xs) (simp_all add: mapped_records_Nil mapped_records_Cons)

lemma mapped_records_origin:
  "d \<in> set (mapped_records ex m rows) \<Longrightarrow>
     \<exists>r \<in> set rows. length r \<in> set ex \<and> fst (m r) = Inr d"
  by (induction rows)
     (auto simp add: mapped_records_Nil mapped_records_Cons mapped_record_def
        split: option.splits if_splits sum.splits)

lemma mapped_records_replicate:
  "length row \<in> set ex \<Longrightarrow> fst (m row) = Inr d \<Longrightarrow>
     mapped_records ex m (replicate n row) = replicate n d"
  by (induction n) (simp_all add: mapped_records_Nil mapped_records_Cons mapped_record_def)

lemma mapped_records_drop_row:
  "mapped_record ex m row = None \<Longrightarrow>
     mapped_records ex m (pre @ row # post) = mapped_records ex m (pre @ post)"
  by (simp add: mapped_records_append mapped_records_Cons)

lemma classify_row_documents:
  "documents (classify_row f ex m i row st) =
     documents st @ (case mapped_record ex m row of None \<Rightarrow> [] | Some d \<Rightarrow> [d])"
  by (simp add: classify_row_def mapped_record_def split: prod.splits sum.splits error.splits)

lemma classify_row_db: "db (classify_row f ex m i row st) = db st"
  by (simp add: classify_row_def split: prod.splits sum.splits error.splits)

lemma classify_row_processed:
  "processed_count (classify_row f ex m i row st) =
     processed_count st + (case mapped_record ex m row of None \<Rightarrow> 0 | Some d \<Rightarrow> 1)"
  by (simp add: classify_row_def mapped_record_def split: prod.splits sum.splits error.splits)

lemma classify_row_skipped:
  "skipped_count (classify_row f ex m i row st) =
     skipped_count st + (case mapped_record ex m row of None \<Rightarrow> 1 | Some d \<Rightarrow> 0)"
  by (simp add: classify_row_def mapped_record_def split: prod.splits sum.splits error.splits)

lemma flush_if_full_counts:
  "processed_count (flush_if_full c st) = processed_count st"
  "skipped_count (flush_if_full c st) = skipped_count st"
  "out (flush_if_full c st) = out st"
  by (simp_all add: flush_if_full_def)

lemma process_rows_processed:
  "processed_count (process_rows f c ex m i rows st) =
     processed_count st + length (mapped_records ex m rows)"
  by (induction rows arbitrary: i st)
     (simp_all add: mapped_records_Nil mapped_records_Cons process_row_def
        flush_if_full_counts classify_row_processed split: option.splits)

lemma process_rows_skipped:
  "skipped_count (process_rows f c ex m i rows st) + length (mapped_records ex m rows) =
     skipped_count st + length rows"
  by (induction rows arbitrary: i st)
     (simp_all add: mapped_records_Nil mapped_records_Cons process_row_def
        flush_if_full_counts classify_row_skipped split: option.splits)

lemma process_rows_db:
  "length (documents st) < 10000 \<Longrightarrow>
   db (final_flush c (process_rows f c ex m i rows st)) =
     write_all c (batches (documents st @ mapped_records ex m rows)) (db st)"
proof (induction rows arbitrary: i st)
  case Nil
  then show ?case
    by (cases "documents st = []")
       (simp_all add: final_flush_def mapped_records_Nil batches_Nil batches_short write_all_def)
next
  case (Cons row rows)
  let ?st1 = "classify_row f ex m i row st"
  let ?st2 = "flush_if_full c ?st1"
  let ?new = "case mapped_record ex m row of None \<Rightarrow> [] | Some d \<Rightarrow> [d]"
  have docs1: "documents ?st1 = documents st @ ?new" by (rule classify_row_documents)
  have len1: "length (documents ?st1) \<le> 10000"
    using Cons.prems by (simp add: docs1 split: option.splits)
  show ?case
  proof (cases "length (documents ?st1) = 10000")
    case True
    then have st2: "documents ?st2 = []"
      "db ?st2 = insert_many c (documents ?st1) (db st)"
      by (auto simp add: flush_if_full_def classify_row_db)
    have "db (final_flush c (process_rows f c ex m (Suc i) rows ?st2)) =
            write_all c (batches (documents ?st2 @ mapped_records ex m rows)) (db ?st2)"
      by (rule Cons.IH) (simp add: st2)
    also have "\<dots> = write_all c (documents ?st1 # batches (mapped_records ex m rows)) (db st)"
      by (simp add: st2 write_all_def)
    also have "documents ?st1 # batches (mapped_records ex m rows) =
                 batches (documents ?st1 @ mapped_records ex m rows)"
      using True by (simp add: batches_full)
    finally show ?thesis
      by (simp add: process_row_def docs1 mapped_records_Cons)
  next
    case False
    with len1 have lt: "length (documents ?st1) < 10000" by simp
    then have st2: "?st2 = ?st1" by (simp add: flush_if_full_def)
    have "db (final_flush c (process_rows f c ex m (Suc i) rows ?st1)) =
            write_all c (batches (documents ?st1 @ mapped_records ex m rows)) (db ?st1)"
      by (rule Cons.IH) (rule lt)
    then show ?thesis
      by (simp add: process_row_def st2 docs1 mapped_records_Cons classify_row_db)
  qed
qed

lemma final_flush_counts:
  "processed_count (final_flush c st) = processed_count st"
  "skipped_count (final_flush c st) = skipped_count st"
  by (simp_all add: final_flush_def)

lemma file_loop_db:
  "db (file_loop d f c ex m rows) =
     write_all c (batches (mapped_records ex m rows)) (drop_collection c d)"
  using process_rows_db [of "\<lparr>documents = [], processed_count = 0, skipped_count = 0,
           db = drop_collection c d, out = [Processing f c]\<rparr>" c f ex m 0 rows]
  by (simp add: file_loop_def)

lemma file_loop_processed:
  "processed_count (file_loop d f c ex m rows) = length (mapped_records ex m rows)"
  by (simp add: file_loop_def final_flush_counts process_rows_processed)

lemma file_loop_skipped:
  "skipped_count (file_loop d f c ex m rows) + length (mapped_records ex m rows) = length rows"
  using process_rows_skipped [of f c ex m 0 rows]
  by (simp add: file_loop_def final_flush_counts)

subsection \<open>The database after a file\<close>

lemma calls_write_all: "calls (write_all c bs d) = calls d @ map (InsertMany c) bs"
  by (induction bs arbitrary: d) (simp_all add: write_all_def insert_many_def)

lemma contents_write_all_other:
  "name \<noteq> c \<Longrightarrow> contents (write_all c bs d) name = contents d name"
  by (induction bs arbitrary: d) (simp_all add: write_all_def insert_many_def)

lemma contents_write_all_same:
  "contents (write_all c bs d) c =
     (if bs = [] then contents d c
      else Some ((case contents d c of None \<Rightarrow> [] | Some old \<Rightarrow> old) @ concat bs))"
proof (induction bs arbitrary: d)
  case Nil
  then show ?case by (simp add: write_all_def)
next
  case (Cons b bs)
  have "write_all c (b # bs) d = write_all c bs (insert_many c b d)"
    by (simp add: write_all_def)
  then show ?case
    by (simp add: Cons.IH insert_many_def)
qed

lemma process_file_db:
  assumes "fs path = Some rows"
  shows "fst (process_file fs d path c ex m) =
           write_all c (batches (mapped_records ex m rows)) (drop_collection c d)"
  using assms by (simp add: process_file_def Let_def file_loop_db)

lemma process_file_calls:
  assumes "fs path = Some rows"
  shows "calls (fst (process_file fs d path c ex m)) =
           calls d @ Drop c # map (InsertMany c) (batches (mapped_records ex m rows))"
  using assms by (simp add: process_file_db calls_write_all drop_collection_def)

lemma process_file_contents:
  assumes "fs path = Some rows"
  shows "contents (fst (process_file fs d path c ex m)) c =
           (if mapped_records ex m rows = [] then None else Some (mapped_records ex m rows))"
  using assms
  by (simp add: process_file_db contents_write_all_same batches_eq_Nil concat_batches
      drop_collection_def)

lemma process_file_contents_other:
  "name \<noteq> c \<Longrightarrow> contents (fst (process_file fs d path c ex m)) name = contents d name"
  by (cases "fs path")
     (simp_all add: process_file_def Let_def file_loop_db contents_write_all_other
        drop_collection_def)

lemma process_file_missing:
  "fs path = None \<Longrightarrow> process_file fs d path c ex m = (d, [FileNotFound path])"
  by (simp add: process_file_def)

lemma main_db:
  "fst (main fs d) =
     fst (process_file fs
       (fst (process_file fs
          (fst (process_file fs d ES_FILE ''es_zip_codes'' [12] (silent map_es_fields)))
          US_FILE ''us_zip_codes'' [12] (silent map_us_fields)))
       CA_FILE ''ca_zip_codes'' [10, 12] map_ca_fields_flexible)"
  by (simp add: main_def Let_def case_prod_beta)

subsection \<open>Evaluating the conversions\<close>

lemmas py_parse_defs =
  py_float_def py_int_def scan_sign_def scan_exponent_def strip_def is_space_def is_digit_def
  lower_def digits_value_def digit_val_def scale10_def Let_def

lemmas mapper_eval_defs =
  cell_def bind_def str_or_none_def float_or_none_def int_or_none_def

lemma float_cell_fails_abc: "float_cell_fails ''abc''"
  by (simp add: float_cell_fails_def py_parse_defs)

section \<open>Verified properties\<close>

text \<open>
  C1, as amended. For every Canada row of exactly 10 or exactly 12 cells the mapper
  returns a record and never raises. When converting the latitude, longitude or
  accuracy cell fails, the error is caught and a warning printed; the field whose cell
  failed and the fields after it, in the order latitude, longitude, accuracy, stay
  \<^verbatim>\<open>None\<close>, and a field converted before the failure keeps its value. The other fields
  are filled from their cells all the same, and the caller appends the record to the
  batch and counts the row as processed. A row of 10 cells with cell 7 equal to
  \<^verbatim>\<open>abc\<close> gives \<^verbatim>\<open>None\<close> for all three.
\<close>

theorem ca_mapper_parse_failure_keeps_row:
  assumes "length row = 10 \<or> length row = 12"
    and "k = (if length row = 10 then 7 else 9)"
  shows "\<exists>lat lon acc w.
           map_ca_fields_flexible row =
             (Inr [(''country_code'', PStr (row ! 0)),
                   (''postal_code'', PStr (row ! 1)),
                   (''place_name'', PStr (row ! 2)),
                   (''admin1_name'', str_or_none (row ! 3)),
                   (''admin1_code'', str_or_none (row ! 4)),
                   (''admin2_name'', str_or_none (row ! 5)),
                   (''admin2_code'', str_or_none (row ! 6)),
                   (''admin3_name'', if length row = 12 then str_or_none (row ! 7) else PNone),
                   (''admin3_code'', if length row = 12 then str_or_none (row ! 8) else PNone),
                   (''latitude'', lat), (''longitude'', lon), (''accuracy'', acc)], w) \<and>
           classify_row path [10, 12] map_ca_fields_flexible i row st =
             st\<lparr>documents := documents st @
                  [[(''country_code'', PStr (row ! 0)),
                    (''postal_code'', PStr (row ! 1)),
                    (''place_name'', PStr (row ! 2)),
                    (''admin1_name'', str_or_none (row ! 3)),
                    (''admin1_code'', str_or_none (row ! 4)),
                    (''admin2_name'', str_or_none (row ! 5)),
                    (''admin2_code'', str_or_none (row ! 6)),
                    (''admin3_name'', if length row = 12 then str_or_none (row ! 7) else PNone),
                    (''admin3_code'', if length row = 12 then str_or_none (row ! 8) else PNone),
                    (''latitude'', lat), (''longitude'', lon), (''accuracy'', acc)]],
                processed_count := processed_count st + 1,
                out := out st @ w\<rparr> \<and>
           (float_cell_fails (row ! k) \<longrightarrow> lat = PNone \<and> lon = PNone \<and> acc = PNone) \<and>
           (\<not> float_cell_fails (row ! k) \<longrightarrow> float_or_none (row ! k) = Inr lat) \<and>
           (\<not> float_cell_fails (row ! k) \<and> float_cell_fails (row ! (k + 1)) \<longrightarrow>
              lon = PNone \<and> acc = PNone) \<and>
           (\<not> float_cell_fails (row ! k) \<and> \<not> float_cell_fails (row ! (k + 1)) \<longrightarrow>
              float_or_none (row ! (k + 1)) = Inr lon) \<and>
           (\<not> float_cell_fails (row ! k) \<and> \<not> float_cell_fails (row ! (k + 1)) \<and>
            int_cell_fails (row ! (k + 2)) \<longrightarrow> acc = PNone) \<and>
           (\<not> float_cell_fails (row ! k) \<and> \<not> float_cell_fails (row ! (k + 1)) \<and>
            \<not> int_cell_fails (row ! (k + 2)) \<longrightarrow>
              int_or_none (row ! (k + 2)) = Inr acc \<and> w = []) \<and>
           (float_cell_fails (row ! k) \<or> float_cell_fails (row ! (k + 1)) \<or>
            int_cell_fails (row ! (k + 2)) \<longrightarrow> (\<exists>e. w = [WarnCA (length row) row e])) \<and>
           (length row = 10 \<and> row ! 7 = ''abc'' \<longrightarrow>
              lat = PNone \<and> lon = PNone \<and> acc = PNone)"
proof -
  from assms have kr: "k + 2 < length row" by auto
  from ca_try_result [OF kr] obtain lat lon acc w where
    t: "ca_try row k (ca_fixed_fields row @
              [(''latitude'', PNone), (''longitude'', PNone), (''accuracy'', PNone)]) =
             (ca_fixed_fields row @
                [(''latitude'', lat), (''longitude'', lon), (''accuracy'', acc)], w)"
    and f1: "float_cell_fails (row ! k) \<longrightarrow> lat = PNone \<and> lon = PNone \<and> acc = PNone"
    and f2: "\<not> float_cell_fails (row ! k) \<longrightarrow> float_or_none (row ! k) = Inr lat"
    and f3: "\<not> float_cell_fails (row ! k) \<and> float_cell_fails (row ! (k + 1)) \<longrightarrow>
              lon = PNone \<and> acc = PNone"
    and f4: "\<not> float_cell_fails (row ! k) \<and> \<not> float_cell_fails (row ! (k + 1)) \<longrightarrow>
              float_or_none (row ! (k + 1)) = Inr lon"
    and f5: "\<not> float_cell_fails (row ! k) \<and> \<not> float_cell_fails (row ! (k + 1)) \<and>
            int_cell_fails (row ! (k + 2)) \<longrightarrow> acc = PNone"
    and f6: "\<not> float_cell_fails (row ! k) \<and> \<not> float_cell_fails (row ! (k + 1)) \<and>
            \<not> int_cell_fails (row ! (k + 2)) \<longrightarrow>
              int_or_none (row ! (k + 2)) = Inr acc \<and> w = []"
    and f7: "float_cell_fails (row ! k) \<or> float_cell_fails (row ! (k + 1)) \<or>
            int_cell_fails (row ! (k + 2)) \<longrightarrow> (\<exists>e. w = [WarnCA (length row) row e])"
    by blast
  let ?doc = "ca_fixed_fields row @
                [(''latitude'', lat), (''longitude'', lon), (''accuracy'', acc)]"
  have m: "map_ca_fields_flexible row = (Inr ?doc, w)"
    using assms(2) t by (simp add: map_ca_10_12 [OF assms(1)])
  have len: "length row \<in> set [10, 12]" using assms(1) by auto
  have c: "classify_row path [10, 12] map_ca_fields_flexible i row st =
             st\<lparr>documents := documents st @ [?doc],
                processed_count := processed_count st + 1,
                out := out st @ w\<rparr>"
    using len by (simp add: classify_row_def m)
  have abc: "length row = 10 \<and> row ! 7 = ''abc'' \<longrightarrow>
              lat = PNone \<and> lon = PNone \<and> acc = PNone"
  proof
    assume a: "length row = 10 \<and> row ! 7 = ''abc''"
    with assms(2) have "k = 7" by simp
    with a f1 float_cell_fails_abc show "lat = PNone \<and> lon = PNone \<and> acc = PNone"
      by simp
  qed
  have d: "?doc = [(''country_code'', PStr (row ! 0)),
                   (''postal_code'', PStr (row ! 1)),
                   (''place_name'', PStr (row ! 2)),
                   (''admin1_name'', str_or_none (row ! 3)),
                   (''admin1_code'', str_or_none (row ! 4)),
                   (''admin2_name'', str_or_none (row ! 5)),
                   (''admin2_code'', str_or_none (row ! 6)),
                   (''admin3_name'', if length row = 12 then str_or_none (row ! 7) else PNone),
                   (''admin3_code'', if length row = 12 then str_or_none (row ! 8) else PNone),
                   (''latitude'', lat), (''longitude'', lon), (''accuracy'', acc)]"
    by (simp add: ca_fixed_fields_def)
  from m c f1 f2 f3 f4 f5 f6 f7 abc show ?thesis
    unfolding d by blast
qed

theorem ca_mapper_parse_failure_keeps_row_witness:
  "fst (map_ca_fields_flexible
     [''CA'', ''T0A'', ''Eastern Alberta'', ''Alberta'', ''AB'', ''Division 12'', ''4812'',
      ''abc'', ''-111.7174'', ''6'']) =
   Inr [(''country_code'', PStr ''CA''),
        (''postal_code'', PStr ''T0A''),
        (''place_name'', PStr ''Eastern Alberta''),
        (''admin1_name'', PStr ''Alberta''),
        (''admin1_code'', PStr ''AB''),
        (''admin2_name'', PStr ''Division 12''),
        (''admin2_code'', PStr ''4812''),
        (''admin3_name'', PNone),
        (''admin3_code'', PNone),
        (''latitude'', PNone), (''longitude'', PNone), (''accuracy'', PNone)]"
proof -
  let ?row = "[''CA'', ''T0A'', ''Eastern Alberta'', ''Alberta'', ''AB'', ''Division 12'',
               ''4812'', ''abc'', ''-111.7174'', ''6'']"
  have l: "length ?row = 10 \<or> length ?row = 12" by simp
  have k: "(7::nat) = (if length ?row = 10 then 7 else 9)" by simp
  have c: "length ?row = 10 \<and> ?row ! 7 = ''abc''" by simp
  from ca_mapper_parse_failure_keeps_row [of ?row 7 "''CA_full.txt''" 0
      "\<lparr>documents = [], processed_count = 0, skipped_count = 0,
        db = \<lparr>contents = Map.empty, calls = []\<rparr>, out = []\<rparr>", OF l k]
  show ?thesis
  proof (elim exE conjE)
    fix lat lon acc w
    assume m: "map_ca_fields_flexible ?row =
          (Inr [(''country_code'', PStr (?row ! 0)),
                (''postal_code'', PStr (?row ! 1)),
                (''place_name'', PStr (?row ! 2)),
                (''admin1_name'', str_or_none (?row ! 3)),
                (''admin1_code'', str_or_none (?row ! 4)),
                (''admin2_name'', str_or_none (?row ! 5)),
                (''admin2_code'', str_or_none (?row ! 6)),
                (''admin3_name'', if length ?row = 12 then str_or_none (?row ! 7) else PNone),
                (''admin3_code'', if length ?row = 12 then str_or_none (?row ! 8) else PNone),
                (''latitude'', lat), (''longitude'', lon), (''accuracy'', acc)], w)"
      and a: "length ?row = 10 \<and> ?row ! 7 = ''abc'' \<longrightarrow>
              lat = PNone \<and> lon = PNone \<and> acc = PNone"
    from a c have "lat = PNone \<and> lon = PNone \<and> acc = PNone" by (rule mp)
    with m show ?thesis by (simp add: str_or_none_def)
  qed
qed

theorem ca_mapper_later_failure_counterexample:
  "py_float ''abc'' = None \<and>
   map_ca_fields_flexible
     [''CA'', ''T0A'', ''Eastern Alberta'', ''Alberta'', ''AB'', ''Division 12'', ''4812'',
      ''54.766'', ''abc'', ''6''] =
   (Inr [(''country_code'', PStr ''CA''),
         (''postal_code'', PStr ''T0A''),
         (''place_name'', PStr ''Eastern Alberta''),
         (''admin1_name'', PStr ''Alberta''),
         (''admin1_code'', PStr ''AB''),
         (''admin2_name'', PStr ''Division 12''),
         (''admin2_code'', PStr ''4812''),
         (''admin3_name'', PNone),
         (''admin3_code'', PNone),
         (''latitude'', PFloat (Finite (54766 / 1000))),
         (''longitude'', PNone), (''accuracy'', PNone)],
    [WarnCA 10
       [''CA'', ''T0A'', ''Eastern Alberta'', ''Alberta'', ''AB'', ''Division 12'', ''4812'',
        ''54.766'', ''abc'', ''6'']
       (ValueError (CouldNotConvertFloat ''abc''))])"
proof -
  let ?row = "[''CA'', ''T0A'', ''Eastern Alberta'', ''Alberta'', ''AB'', ''Division 12'',
               ''4812'', ''54.766'', ''abc'', ''6'']"
  have abc: "py_float ''abc'' = None" by (simp add: py_parse_defs)
  have lat: "py_float ''54.766'' = Some (Finite (54766 / 1000))" by (simp add: py_parse_defs)
  have f7: "bind (cell ?row 7) float_or_none = Inr (PFloat (Finite (54766 / 1000)))"
    by (simp add: cell_def bind_def float_or_none_def lat)
  have f8: "bind (cell ?row 8) float_or_none = Inl (ValueError (CouldNotConvertFloat ''abc''))"
    by (simp add: cell_def bind_def float_or_none_def abc)
  have i: "ca_initial_doc ?row =
     Inr [(''country_code'', PStr ''CA''),
         (''postal_code'', PStr ''T0A''),
         (''place_name'', PStr ''Eastern Alberta''),
         (''admin1_name'', PStr ''Alberta''),
         (''admin1_code'', PStr ''AB''),
         (''admin2_name'', PNone),
         (''admin2_code'', PNone),
         (''admin3_name'', PNone),
         (''admin3_code'', PNone),
         (''latitude'', PNone),
         (''longitude'', PNone), (''accuracy'', PNone)]"
    by (simp add: ca_initial_doc_def guarded_cell_def cell_def bind_def str_or_none_def)
  let ?d1 = "[(''country_code'', PStr ''CA''),
         (''postal_code'', PStr ''T0A''),
         (''place_name'', PStr ''Eastern Alberta''),
         (''admin1_name'', PStr ''Alberta''),
         (''admin1_code'', PStr ''AB''),
         (''admin2_name'', PStr ''Division 12''),
         (''admin2_code'', PStr ''4812''),
         (''admin3_name'', PNone),
         (''admin3_code'', PNone),
         (''latitude'', PNone),
         (''longitude'', PNone), (''accuracy'', PNone)]"
  have a: "bind (assign_str ''admin2_name'' ?row 5
       [(''country_code'', PStr ''CA''),
         (''postal_code'', PStr ''T0A''),
         (''place_name'', PStr ''Eastern Alberta''),
         (''admin1_name'', PStr ''Alberta''),
         (''admin1_code'', PStr ''AB''),
         (''admin2_name'', PNone),
         (''admin2_code'', PNone),
         (''admin3_name'', PNone),
         (''admin3_code'', PNone),
         (''latitude'', PNone),
         (''longitude'', PNone), (''accuracy'', PNone)])
       (assign_str ''admin2_code'' ?row 6) = Inr ?d1"
    by (simp add: assign_str_def cell_def bind_def str_or_none_def)
  have t: "ca_try ?row 7 ?d1 =
    ([(''country_code'', PStr ''CA''),
         (''postal_code'', PStr ''T0A''),
         (''place_name'', PStr ''Eastern Alberta''),
         (''admin1_name'', PStr ''Alberta''),
         (''admin1_code'', PStr ''AB''),
         (''admin2_name'', PStr ''Division 12''),
         (''admin2_code'', PStr ''4812''),
         (''admin3_name'', PNone),
         (''admin3_code'', PNone),
         (''latitude'', PFloat (Finite (54766 / 1000))),
         (''longitude'', PNone), (''accuracy'', PNone)],
     [WarnCA 10 ?row (ValueError (CouldNotConvertFloat ''abc''))])"
    by (simp add: ca_try_def ca_try_body_def f7 f8 Let_def)
  have m: "map_ca_fields_flexible ?row =
   (Inr [(''country_code'', PStr ''CA''),
         (''postal_code'', PStr ''T0A''),
         (''place_name'', PStr ''Eastern Alberta''),
         (''admin1_name'', PStr ''Alberta''),
         (''admin1_code'', PStr ''AB''),
         (''admin2_name'', PStr ''Division 12''),
         (''admin2_code'', PStr ''4812''),
         (''admin3_name'', PNone),
         (''admin3_code'', PNone),
         (''latitude'', PFloat (Finite (54766 / 1000))),
         (''longitude'', PNone), (''accuracy'', PNone)],
    [WarnCA 10 ?row (ValueError (CouldNotConvertFloat ''abc''))])"
    unfolding map_ca_fields_flexible_def i
    by (simp add: a t)
  from abc m show ?thesis by (rule conjI)
qed

text \<open>
  C2, as amended. For every row of at least 3 cells whose cell count is neither 10 nor
  12, the Canada mapper raises \<^verbatim>\<open>ValueError\<close> with a message that names the count.
\<close>

theorem ca_mapper_unexpected_count:
  assumes "3 \<le> length row"
    and "length row \<noteq> 10"
    and "length row \<noteq> 12"
  shows "map_ca_fields_flexible row =
           (Inl (ValueError (UnexpectedColumns (length row) row)), [])"
proof -
  from ca_initial_doc_Inr [OF assms(1)] obtain d where "ca_initial_doc row = Inr d" ..
  with assms(2,3) show ?thesis
    by (simp add: map_ca_fields_flexible_def raise_def)
qed

theorem ca_mapper_unexpected_count_witness:
  "map_ca_fields_flexible [''CA'', ''T0A'', ''Eastern Alberta''] =
     (Inl (ValueError (UnexpectedColumns 3 [''CA'', ''T0A'', ''Eastern Alberta''])), [])"
  using ca_mapper_unexpected_count [of "[''CA'', ''T0A'', ''Eastern Alberta'']"]
  by simp

theorem ca_mapper_short_row_counterexample:
  "map_ca_fields_flexible [] = (Inl IndexError, []) \<and>
   map_ca_fields_flexible [''CA''] = (Inl IndexError, []) \<and>
   map_ca_fields_flexible [''CA'', ''T0A''] = (Inl IndexError, [])"
  by (simp add: map_ca_fields_flexible_def ca_initial_doc_def cell_def bind_def raise_def)

text \<open>
  C3. The loop issues a bulk write of the whole buffer, and empties it, when the buffer
  holds 10000 records, and leaves it alone below that; at the end of the file the
  remainder is written if there is one. So the bulk writes of a file are its mapped
  records cut into pieces of 10000 with a last piece of 1 to 10000 records: their
  concatenation is the sequence of mapped records, and 10001 mapped records give two
  bulk writes, of 10000 records and of 1.
\<close>

theorem batch_writer_bulk_writes:
  assumes "fs path = Some rows"
    and "ms = mapped_records ex m rows"
  shows "calls (fst (process_file fs d path c ex m)) =
           calls d @ Drop c # map (InsertMany c) (batches ms) \<and>
         concat (batches ms) = ms \<and>
         (\<forall>b \<in> set (butlast (batches ms)). length b = 10000) \<and>
         (\<forall>b \<in> set (batches ms). 0 < length b \<and> length b \<le> 10000) \<and>
         (length ms = 10001 \<longrightarrow>
            batches ms = [take 10000 ms, drop 10000 ms] \<and>
            length (take 10000 ms) = 10000 \<and> length (drop 10000 ms) = 1) \<and>
         (\<forall>st. length (documents st) = 10000 \<longrightarrow>
            flush_if_full c st =
              st\<lparr>db := insert_many c (documents st) (db st), documents := []\<rparr>) \<and>
         (\<forall>st. length (documents st) < 10000 \<longrightarrow> flush_if_full c st = st) \<and>
         (\<forall>st. documents st \<noteq> [] \<longrightarrow>
            final_flush c st = st\<lparr>db := insert_many c (documents st) (db st)\<rparr>) \<and>
         (\<forall>st. documents st = [] \<longrightarrow> final_flush c st = st)"
proof (intro conjI)
  show "calls (fst (process_file fs d path c ex m)) =
           calls d @ Drop c # map (InsertMany c) (batches ms)"
    using assms by (simp add: process_file_calls)
  show "concat (batches ms) = ms" by (rule concat_batches)
  show "\<forall>b \<in> set (butlast (batches ms)). length b = 10000"
    by (blast dest: batches_butlast)
  show "\<forall>b \<in> set (batches ms). 0 < length b \<and> length b \<le> 10000"
    by (blast dest: batches_sizes)
  show "length ms = 10001 \<longrightarrow>
            batches ms = [take 10000 ms, drop 10000 ms] \<and>
            length (take 10000 ms) = 10000 \<and> length (drop 10000 ms) = 1"
    by (simp add: batches_10001)
  show "\<forall>st. length (documents st) = 10000 \<longrightarrow>
            flush_if_full c st =
              st\<lparr>db := insert_many c (documents st) (db st), documents := []\<rparr>"
    by (auto simp add: flush_if_full_def)
  show "\<forall>st. length (documents st) < 10000 \<longrightarrow> flush_if_full c st = st"
    by (simp add: flush_if_full_def)
  show "\<forall>st. documents st \<noteq> [] \<longrightarrow>
            final_flush c st = st\<lparr>db := insert_many c (documents st) (db st)\<rparr>"
    by (simp add: final_flush_def)
  show "\<forall>st. documents st = [] \<longrightarrow> final_flush c st = st"
    by (simp add: final_flush_def)
qed

theorem batch_writer_bulk_writes_witness:
  "calls (fst (process_file
       (Map.empty(''US.txt'' \<mapsto> replicate 10001
          [''US'', ''90210'', ''Beverly Hills'', ''California'', ''CA'', ''Los Angeles'',
           ''037'', '''', '''', '''', '''', '''']))
       \<lparr>contents = Map.empty, calls = []\<rparr>
       ''US.txt'' ''us_zip_codes'' [12] (silent map_us_fields))) =
     [Drop ''us_zip_codes'',
      InsertMany ''us_zip_codes'' (replicate 10000
        [(''country_code'', PStr ''US''), (''postal_code'', PStr ''90210''),
         (''place_name'', PStr ''Beverly Hills''), (''admin1_name'', PStr ''California''),
         (''admin1_code'', PStr ''CA''), (''admin2_name'', PStr ''Los Angeles''),
         (''admin2_code'', PStr ''037''), (''latitude'', PNone), (''longitude'', PNone),
         (''accuracy'', PNone)]),
      InsertMany ''us_zip_codes''
        [[(''country_code'', PStr ''US''), (''postal_code'', PStr ''90210''),
          (''place_name'', PStr ''Beverly Hills''), (''admin1_name'', PStr ''California''),
          (''admin1_code'', PStr ''CA''), (''admin2_name'', PStr ''Los Angeles''),
          (''admin2_code'', PStr ''037''), (''latitude'', PNone), (''longitude'', PNone),
          (''accuracy'', PNone)]]]"
proof -
  let ?row = "[''US'', ''90210'', ''Beverly Hills'', ''California'', ''CA'', ''Los Angeles'',
           ''037'', '''', '''', '''', '''', '''']"
  let ?d = "[(''country_code'', PStr ''US''), (''postal_code'', PStr ''90210''),
         (''place_name'', PStr ''Beverly Hills''), (''admin1_name'', PStr ''California''),
         (''admin1_code'', PStr ''CA''), (''admin2_name'', PStr ''Los Angeles''),
         (''admin2_code'', PStr ''037''), (''latitude'', PNone), (''longitude'', PNone),
         (''accuracy'', PNone)]"
  let ?fs = "Map.empty(''US.txt'' \<mapsto> replicate 10001 ?row)"
  let ?base = "\<lparr>contents = Map.empty, calls = []\<rparr>"
  let ?ms = "replicate 10001 ?d"
  have r: "fst (silent map_us_fields ?row) = Inr ?d"
    by (simp add: silent_def map_us_fields_def mapper_eval_defs)
  have len: "length ?row \<in> set [12]" by simp
  have ms: "?ms = mapped_records [12] (silent map_us_fields) (replicate 10001 ?row)"
    by (rule sym) (rule mapped_records_replicate [of ?row "[12]" "silent map_us_fields" ?d 10001, OF len r])
  have f: "?fs ''US.txt'' = Some (replicate 10001 ?row)"
    by (rule fun_upd_same)
  have t: "take 10000 ?ms = replicate 10000 ?d"
    by (simp only: take_replicate) simp
  have "drop 10000 ?ms = replicate (10001 - 10000) ?d"
    by (simp only: drop_replicate)
  also have "(10001::nat) - 10000 = 1" by simp
  finally have dr: "drop 10000 ?ms = [?d]" by simp
  have l: "length ?ms = 10001" by (simp only: length_replicate)
  note w = batch_writer_bulk_writes [of ?fs "''US.txt''" "replicate 10001 ?row" ?ms "[12]"
      "silent map_us_fields" ?base "''us_zip_codes''", OF f ms]
  from w have c: "calls (fst (process_file ?fs ?base ''US.txt'' ''us_zip_codes'' [12]
        (silent map_us_fields))) =
      calls ?base @ Drop ''us_zip_codes'' # map (InsertMany ''us_zip_codes'') (batches ?ms)"
    by (rule conjunct1)
  from w have "length ?ms = 10001 \<longrightarrow>
            batches ?ms = [take 10000 ?ms, drop 10000 ?ms] \<and>
            length (take 10000 ?ms) = 10000 \<and> length (drop 10000 ?ms) = 1"
    by (elim conjE)
  with l have "batches ?ms = [take 10000 ?ms, drop 10000 ?ms]" by blast
  then have b: "batches ?ms = [replicate 10000 ?d, [?d]]" by (simp only: t dr)
  have e: "calls ?base = []" by simp
  show ?thesis
    by (simp only: c b e list.map append_Nil)
qed

text \<open>
  C4. On a row of 12 cells the Spain mapper and the US mapper raise \<^verbatim>\<open>ValueError\<close> exactly
  when cell 9, 10 or 11 is not empty and does not convert (\<^verbatim>\<open>float\<close>, \<^verbatim>\<open>float\<close>, \<^verbatim>\<open>int\<close>),
  and they raise nothing else. When the mapper raises, the caller only adds one to the
  skipped count and prints a message; the pending batch is unchanged. Every document
  that the collection holds after a file was processed is the complete record that the
  mapper returned for some row of the file.
\<close>

theorem es_us_conversion_error_skips_row:
  assumes "f = map_es_fields \<or> f = map_us_fields"
    and "length row = 12"
  shows "((\<exists>m. f row = Inl (ValueError m)) \<longleftrightarrow>
            (row ! 9 \<noteq> [] \<and> py_float (row ! 9) = None) \<or>
            (row ! 10 \<noteq> [] \<and> py_float (row ! 10) = None) \<or>
            (row ! 11 \<noteq> [] \<and> py_int (row ! 11) = None)) \<and>
         (\<forall>e. f row = Inl e \<longrightarrow>
            (\<exists>m. e = ValueError m) \<and>
            classify_row path [12] (silent f) i row st =
              st\<lparr>skipped_count := skipped_count st + 1,
                 out := out st @ [SkipConversion (i + 1) path e row]\<rparr>) \<and>
         (\<forall>rows ds d. fs path = Some rows \<and>
            contents (fst (process_file fs d0 path c [12] (silent f))) c = Some ds \<and>
            d \<in> set ds \<longrightarrow>
            (\<exists>r \<in> set rows. length r = 12 \<and> f r = Inr d))"
proof (intro conjI allI impI)
  have "(\<exists>m. f row = Inl (ValueError m)) \<longleftrightarrow> (\<exists>e. f row = Inl e)"
    using es_us_raise_ValueError [OF assms] by blast
  then show "(\<exists>m. f row = Inl (ValueError m)) \<longleftrightarrow>
            (row ! 9 \<noteq> [] \<and> py_float (row ! 9) = None) \<or>
            (row ! 10 \<noteq> [] \<and> py_float (row ! 10) = None) \<or>
            (row ! 11 \<noteq> [] \<and> py_int (row ! 11) = None)"
    using es_us_raise_iff [OF assms] by simp
next
  fix e
  assume e: "f row = Inl e"
  from es_us_raise_ValueError [OF assms e] show v: "\<exists>m. e = ValueError m" .
  then obtain m where "e = ValueError m" ..
  with e assms(2) show "classify_row path [12] (silent f) i row st =
              st\<lparr>skipped_count := skipped_count st + 1,
                 out := out st @ [SkipConversion (i + 1) path e row]\<rparr>"
    by (simp add: classify_row_def silent_def)
next
  fix rows ds d
  assume a: "fs path = Some rows \<and>
            contents (fst (process_file fs d0 path c [12] (silent f))) c = Some ds \<and>
            d \<in> set ds"
  with process_file_contents [of fs path rows d0 c "[12]" "silent f"]
  have "ds = mapped_records [12] (silent f) rows"
    by (simp split: if_splits)
  with a have "d \<in> set (mapped_records [12] (silent f) rows)" by simp
  from mapped_records_origin [OF this]
  show "\<exists>r \<in> set rows. length r = 12 \<and> f r = Inr d"
    by (simp add: silent_def)
qed

theorem es_us_conversion_error_skips_row_witness:
  "map_us_fields [''US'', ''90210'', ''Beverly Hills'', ''California'', ''CA'', ''Los Angeles'',
                  ''037'', '''', '''', ''34.0901'', ''west'', ''4''] =
     Inl (ValueError (CouldNotConvertFloat ''west'')) \<and>
   classify_row ''US.txt'' [12] (silent map_us_fields) 0
     [''US'', ''90210'', ''Beverly Hills'', ''California'', ''CA'', ''Los Angeles'',
      ''037'', '''', '''', ''34.0901'', ''west'', ''4'']
     \<lparr>documents = [], processed_count = 0, skipped_count = 0,
      db = \<lparr>contents = Map.empty, calls = []\<rparr>, out = []\<rparr> =
     \<lparr>documents = [], processed_count = 0, skipped_count = 1,
      db = \<lparr>contents = Map.empty, calls = []\<rparr>,
      out = [SkipConversion 1 ''US.txt'' (ValueError (CouldNotConvertFloat ''west''))
               [''US'', ''90210'', ''Beverly Hills'', ''California'', ''CA'', ''Los Angeles'',
                ''037'', '''', '''', ''34.0901'', ''west'', ''4'']]\<rparr> \<and>
   contents (fst (process_file
       (Map.empty(''US.txt'' \<mapsto>
          [[''US'', ''90210'', ''Beverly Hills'', ''California'', ''CA'', ''Los Angeles'',
            ''037'', '''', '''', ''34.0901'', ''west'', ''4''],
           [''US'', ''99999'', ''Nowhere'', '''', '''', '''', '''', '''', '''', '''', '''', '''']]))
       \<lparr>contents = Map.empty, calls = []\<rparr>
       ''US.txt'' ''us_zip_codes'' [12] (silent map_us_fields))) ''us_zip_codes'' =
     Some [[(''country_code'', PStr ''US''), (''postal_code'', PStr ''99999''),
            (''place_name'', PStr ''Nowhere''), (''admin1_name'', PStr ''''),
            (''admin1_code'', PStr ''''), (''admin2_name'', PStr ''''),
            (''admin2_code'', PStr ''''), (''latitude'', PNone), (''longitude'', PNone),
            (''accuracy'', PNone)]] \<and>
   (\<exists>r \<in> set [[''US'', ''90210'', ''Beverly Hills'', ''California'', ''CA'', ''Los Angeles'',
                  ''037'', '''', '''', ''34.0901'', ''west'', ''4''],
                 [''US'', ''99999'', ''Nowhere'', '''', '''', '''', '''', '''', '''', '''', '''', '''']].
      length r = 12 \<and>
      map_us_fields r =
        Inr [(''country_code'', PStr ''US''), (''postal_code'', PStr ''99999''),
             (''place_name'', PStr ''Nowhere''), (''admin1_name'', PStr ''''),
             (''admin1_code'', PStr ''''), (''admin2_name'', PStr ''''),
             (''admin2_code'', PStr ''''), (''latitude'', PNone), (''longitude'', PNone),
             (''accuracy'', PNone)])"
proof -
  let ?row = "[''US'', ''90210'', ''Beverly Hills'', ''California'', ''CA'', ''Los Angeles'',
               ''037'', '''', '''', ''34.0901'', ''west'', ''4'']"
  let ?good = "[''US'', ''99999'', ''Nowhere'', '''', '''', '''', '''', '''', '''', '''', '''', '''']"
  let ?gd = "[(''country_code'', PStr ''US''), (''postal_code'', PStr ''99999''),
            (''place_name'', PStr ''Nowhere''), (''admin1_name'', PStr ''''),
            (''admin1_code'', PStr ''''), (''admin2_name'', PStr ''''),
            (''admin2_code'', PStr ''''), (''latitude'', PNone), (''longitude'', PNone),
            (''accuracy'', PNone)]"
  let ?st = "\<lparr>documents = [], processed_count = 0, skipped_count = 0,
      db = \<lparr>contents = Map.empty, calls = []\<rparr>, out = []\<rparr>"
  let ?base = "\<lparr>contents = Map.empty, calls = []\<rparr>"
  let ?fs = "Map.empty(''US.txt'' \<mapsto> [?row, ?good])"
  have l: "length ?row = 12" by simp
  have f: "map_us_fields = map_es_fields \<or> map_us_fields = map_us_fields" by simp
  have r: "map_us_fields ?row = Inl (ValueError (CouldNotConvertFloat ''west''))"
    by (simp add: map_us_fields_def mapper_eval_defs py_parse_defs)
  have g: "map_us_fields ?good = Inr ?gd"
    by (simp add: map_us_fields_def mapper_eval_defs)
  have mr: "mapped_records [12] (silent map_us_fields) [?row, ?good] = [?gd]"
    by (simp add: mapped_records_Cons mapped_records_Nil mapped_record_def silent_def r g)
  have fsx: "?fs ''US.txt'' = Some [?row, ?good]" by (rule fun_upd_same)
  have ct: "contents (fst (process_file ?fs ?base ''US.txt'' ''us_zip_codes'' [12]
              (silent map_us_fields))) ''us_zip_codes'' = Some [?gd]"
    using process_file_contents [of ?fs "''US.txt''" "[?row, ?good]" ?base "''us_zip_codes''"
        "[12]" "silent map_us_fields", OF fsx]
    by (simp only: mr) simp
  note w = es_us_conversion_error_skips_row [of map_us_fields ?row "''US.txt''" 0 ?st ?fs ?base
      "''us_zip_codes''", OF f l]
  from w have w2: "\<forall>e. map_us_fields ?row = Inl e \<longrightarrow>
            (\<exists>m. e = ValueError m) \<and>
            classify_row ''US.txt'' [12] (silent map_us_fields) 0 ?row ?st =
              ?st\<lparr>skipped_count := skipped_count ?st + 1,
                 out := out ?st @ [SkipConversion (0 + 1) ''US.txt'' e ?row]\<rparr>"
    by (elim conjE)
  from w have w3: "\<forall>rows ds d. ?fs ''US.txt'' = Some rows \<and>
            contents (fst (process_file ?fs ?base ''US.txt'' ''us_zip_codes'' [12]
              (silent map_us_fields))) ''us_zip_codes'' = Some ds \<and>
            d \<in> set ds \<longrightarrow>
            (\<exists>r \<in> set rows. length r = 12 \<and> map_us_fields r = Inr d)"
    by (elim conjE)
  from w2 r have c2: "classify_row ''US.txt'' [12] (silent map_us_fields) 0 ?row ?st =
     \<lparr>documents = [], processed_count = 0, skipped_count = 1,
      db = \<lparr>contents = Map.empty, calls = []\<rparr>,
      out = [SkipConversion 1 ''US.txt'' (ValueError (CouldNotConvertFloat ''west'')) ?row]\<rparr>"
    by simp
  have "?gd \<in> set [?gd]" by simp
  with w3 [rule_format, of "[?row, ?good]" "[?gd]" ?gd] fsx ct
  have c3: "\<exists>r \<in> set [?row, ?good]. length r = 12 \<and> map_us_fields r = Inr ?gd"
    by (simp only: simp_thms)
  from r c2 ct c3 show ?thesis by (intro conjI)
qed

text \<open>
  C5. For every row of 12 cells whose numeric cells convert, the Spain mapper returns a
  record, and every record it returns has cells 0 to 6 as they are in \<open>country_code\<close>,
  \<open>postal_code\<close>, \<open>place_name\<close>, \<open>admin1_name\<close>, \<open>admin1_code\<close>, \<open>admin2_name\<close>,
  \<open>admin2_code\<close>; cells 7 and 8 in \<open>admin3_name\<close> and \<open>admin3_code\<close>, an empty cell giving
  \<^verbatim>\<open>None\<close>; cells 9 and 10 converted by \<^verbatim>\<open>float\<close> and cell 11 by \<^verbatim>\<open>int\<close>, an empty cell
  giving \<^verbatim>\<open>None\<close>. With cell 7 empty and cell 8 equal to \<^verbatim>\<open>CommunityX\<close>, \<open>admin3_name\<close> is
  \<^verbatim>\<open>None\<close> and \<open>admin3_code\<close> is \<^verbatim>\<open>CommunityX\<close>.
\<close>

theorem es_mapper_fields:
  assumes "length row = 12"
  shows "((row ! 9 = [] \<or> py_float (row ! 9) \<noteq> None) \<and>
          (row ! 10 = [] \<or> py_float (row ! 10) \<noteq> None) \<and>
          (row ! 11 = [] \<or> py_int (row ! 11) \<noteq> None)
           \<longrightarrow> (\<exists>d. map_es_fields row = Inr d)) \<and>
         (\<forall>d. map_es_fields row = Inr d \<longrightarrow>
            d = [(''country_code'', PStr (row ! 0)),
                 (''postal_code'', PStr (row ! 1)),
                 (''place_name'', PStr (row ! 2)),
                 (''admin1_name'', PStr (row ! 3)),
                 (''admin1_code'', PStr (row ! 4)),
                 (''admin2_name'', PStr (row ! 5)),
                 (''admin2_code'', PStr (row ! 6)),
                 (''admin3_name'', if row ! 7 = [] then PNone else PStr (row ! 7)),
                 (''admin3_code'', if row ! 8 = [] then PNone else PStr (row ! 8)),
                 (''latitude'', if row ! 9 = [] then PNone else PFloat (the (py_float (row ! 9)))),
                 (''longitude'', if row ! 10 = [] then PNone else PFloat (the (py_float (row ! 10)))),
                 (''accuracy'', if row ! 11 = [] then PNone else PInt (the (py_int (row ! 11))))] \<and>
            (row ! 9 \<noteq> [] \<longrightarrow> py_float (row ! 9) \<noteq> None) \<and>
            (row ! 10 \<noteq> [] \<longrightarrow> py_float (row ! 10) \<noteq> None) \<and>
            (row ! 11 \<noteq> [] \<longrightarrow> py_int (row ! 11) \<noteq> None) \<and>
            (row ! 7 = [] \<and> row ! 8 = ''CommunityX'' \<longrightarrow>
               map_of d ''admin3_name'' = Some PNone \<and>
               map_of d ''admin3_code'' = Some (PStr ''CommunityX'')))"
  using assms
  by (auto simp add: map_es_fields_12 bind_def str_or_none_def
      float_or_none_def int_or_none_def split: sum.splits option.splits if_splits)

theorem es_mapper_fields_witness:
  "map_es_fields [''ES'', ''04001'', ''Almeria'', ''Andalucia'', ''AN'', ''Almeria'', ''AL'', '''',
                  ''CommunityX'', ''36.8381'', '''', ''4''] =
     Inr [(''country_code'', PStr ''ES''), (''postal_code'', PStr ''04001''),
          (''place_name'', PStr ''Almeria''), (''admin1_name'', PStr ''Andalucia''),
          (''admin1_code'', PStr ''AN''), (''admin2_name'', PStr ''Almeria''),
          (''admin2_code'', PStr ''AL''), (''admin3_name'', PNone),
          (''admin3_code'', PStr ''CommunityX''),
          (''latitude'', PFloat (Finite (368381 / 10000))),
          (''longitude'', PNone), (''accuracy'', PInt 4)]"
proof -
  let ?row = "[''ES'', ''04001'', ''Almeria'', ''Andalucia'', ''AN'', ''Almeria'', ''AL'', '''',
               ''CommunityX'', ''36.8381'', '''', ''4'']"
  have l: "length ?row = 12" by simp
  have p: "py_float ''36.8381'' = Some (Finite (368381 / 10000))" "py_int ''4'' = Some 4"
    by (simp_all add: py_parse_defs)
  from es_mapper_fields [of ?row, OF l] p
  show ?thesis by auto
qed

text \<open>
  C6. A record that the US mapper returns for a row of 12 cells has exactly the ten keys
  listed, so neither \<open>admin3_name\<close> nor \<open>admin3_code\<close> is a key of it, and cells 7 and 8
  have no influence on the result. The row
  \<^verbatim>\<open>US, 90210, Beverly Hills, California, CA, Los Angeles, 037, "", "", 34.0901, -118.4065, 4\<close>
  gives \<open>postal_code\<close> \<^verbatim>\<open>90210\<close>, \<open>latitude\<close> 34.0901, \<open>longitude\<close> -118.4065 and
  \<open>accuracy\<close> 4.
\<close>

theorem us_mapper_no_admin3:
  "(\<forall>row d. length row = 12 \<and> map_us_fields row = Inr d \<longrightarrow>
      map_of d ''admin3_name'' = None \<and> map_of d ''admin3_code'' = None \<and>
      map fst d = [''country_code'', ''postal_code'', ''place_name'', ''admin1_name'',
                   ''admin1_code'', ''admin2_name'', ''admin2_code'', ''latitude'',
                   ''longitude'', ''accuracy'']) \<and>
   (\<forall>row x y. length row = 12 \<longrightarrow>
      map_us_fields (row[7 := x, 8 := y]) = map_us_fields row) \<and>
   map_us_fields [''US'', ''90210'', ''Beverly Hills'', ''California'', ''CA'', ''Los Angeles'',
                  ''037'', '''', '''', ''34.0901'', ''-118.4065'', ''4''] =
     Inr [(''country_code'', PStr ''US''),
          (''postal_code'', PStr ''90210''),
          (''place_name'', PStr ''Beverly Hills''),
          (''admin1_name'', PStr ''California''),
          (''admin1_code'', PStr ''CA''),
          (''admin2_name'', PStr ''Los Angeles''),
          (''admin2_code'', PStr ''037''),
          (''latitude'', PFloat (Finite (340901 / 10000))),
          (''longitude'', PFloat (Finite (- (1184065 / 10000)))),
          (''accuracy'', PInt 4)]"
proof (intro conjI allI impI)
  fix row d
  assume a: "length row = 12 \<and> map_us_fields row = Inr d"
  then have k: "map fst d = [''country_code'', ''postal_code'', ''place_name'', ''admin1_name'',
                   ''admin1_code'', ''admin2_name'', ''admin2_code'', ''latitude'',
                   ''longitude'', ''accuracy'']"
    using us_mapper_key_list [of row d] by simp
  show "map fst d = [''country_code'', ''postal_code'', ''place_name'', ''admin1_name'',
                   ''admin1_code'', ''admin2_name'', ''admin2_code'', ''latitude'',
                   ''longitude'', ''accuracy'']"
    by (rule k)
  have "''admin3_name'' \<notin> set (map fst d)" "''admin3_code'' \<notin> set (map fst d)"
    by (simp_all add: k)
  then show "map_of d ''admin3_name'' = None" "map_of d ''admin3_code'' = None"
    by (simp_all add: map_of_eq_None_iff)
next
  fix row :: row and x y
  assume "length row = 12"
  then show "map_us_fields (row[7 := x, 8 := y]) = map_us_fields row"
    by (simp add: map_us_fields_12)
next
  show "map_us_fields [''US'', ''90210'', ''Beverly Hills'', ''California'', ''CA'', ''Los Angeles'',
                  ''037'', '''', '''', ''34.0901'', ''-118.4065'', ''4''] =
     Inr [(''country_code'', PStr ''US''),
          (''postal_code'', PStr ''90210''),
          (''place_name'', PStr ''Beverly Hills''),
          (''admin1_name'', PStr ''California''),
          (''admin1_code'', PStr ''CA''),
          (''admin2_name'', PStr ''Los Angeles''),
          (''admin2_code'', PStr ''037''),
          (''latitude'', PFloat (Finite (340901 / 10000))),
          (''longitude'', PFloat (Finite (- (1184065 / 10000)))),
          (''accuracy'', PInt 4)]"
    by (simp add: map_us_fields_def mapper_eval_defs py_parse_defs)
qed

theorem us_mapper_no_admin3_witness:
  "map_of (projr (map_us_fields [''US'', ''90210'', ''Beverly Hills'', ''California'', ''CA'',
                  ''Los Angeles'', ''037'', ''ignored'', ''ignored too'', ''34.0901'',
                  ''-118.4065'', ''4''])) ''admin3_name'' = None \<and>
   map_us_fields [''US'', ''90210'', ''Beverly Hills'', ''California'', ''CA'',
                  ''Los Angeles'', ''037'', ''ignored'', ''ignored too'', ''34.0901'',
                  ''-118.4065'', ''4''] =
   map_us_fields [''US'', ''90210'', ''Beverly Hills'', ''California'', ''CA'', ''Los Angeles'',
                  ''037'', '''', '''', ''34.0901'', ''-118.4065'', ''4'']"
proof -
  let ?row = "[''US'', ''90210'', ''Beverly Hills'', ''California'', ''CA'', ''Los Angeles'',
               ''037'', '''', '''', ''34.0901'', ''-118.4065'', ''4'']"
  have l: "length ?row = 12" by simp
  from us_mapper_no_admin3 have
    a: "\<And>row d. length row = 12 \<and> map_us_fields row = Inr d \<Longrightarrow> map_of d ''admin3_name'' = None"
    and b: "\<And>row x y. length row = 12 \<Longrightarrow> map_us_fields (row[7 := x, 8 := y]) = map_us_fields row"
    and c: "\<exists>d. map_us_fields ?row = Inr d"
    by blast+
  from b [of ?row "''ignored''" "''ignored too''"]
  have e: "map_us_fields [''US'', ''90210'', ''Beverly Hills'', ''California'', ''CA'',
                  ''Los Angeles'', ''037'', ''ignored'', ''ignored too'', ''34.0901'',
                  ''-118.4065'', ''4''] = map_us_fields ?row"
    by simp
  from c obtain d where d: "map_us_fields ?row = Inr d" ..
  from a [of ?row d] d have "map_of d ''admin3_name'' = None" by simp
  with e d show ?thesis by simp
qed

text \<open>
  C7. For every row of exactly 12 cells, the Spain mapper and the US mapper return a
  record exactly when each numeric cell is empty or converts, and the record they
  return has \<open>country_code\<close>, \<open>postal_code\<close> and \<open>place_name\<close> equal to cells 0, 1 and 2
  as they are, also when a cell is the empty string.
\<close>

theorem es_us_identity_fields:
  assumes "f = map_es_fields \<or> f = map_us_fields"
    and "length row = 12"
  shows "((\<exists>d. f row = Inr d) \<longleftrightarrow>
            (row ! 9 = [] \<or> py_float (row ! 9) \<noteq> None) \<and>
            (row ! 10 = [] \<or> py_float (row ! 10) \<noteq> None) \<and>
            (row ! 11 = [] \<or> py_int (row ! 11) \<noteq> None)) \<and>
         (\<forall>d. f row = Inr d \<longrightarrow>
            map_of d ''country_code'' = Some (PStr (row ! 0)) \<and>
            map_of d ''postal_code'' = Some (PStr (row ! 1)) \<and>
            map_of d ''place_name'' = Some (PStr (row ! 2)))"
proof (intro conjI allI impI)
  show "(\<exists>d. f row = Inr d) \<longleftrightarrow>
            (row ! 9 = [] \<or> py_float (row ! 9) \<noteq> None) \<and>
            (row ! 10 = [] \<or> py_float (row ! 10) \<noteq> None) \<and>
            (row ! 11 = [] \<or> py_int (row ! 11) \<noteq> None)"
    by (rule es_us_returns_iff [OF assms])
next
  fix d
  assume "f row = Inr d"
  with assms show "map_of d ''country_code'' = Some (PStr (row ! 0))"
    "map_of d ''postal_code'' = Some (PStr (row ! 1))"
    "map_of d ''place_name'' = Some (PStr (row ! 2))"
    by (auto simp add: map_es_fields_12 map_us_fields_12 bind_def split: sum.splits)
qed

theorem es_us_identity_fields_witness:
  "(\<exists>d. map_es_fields ['''', ''08001'', '''', ''Cataluna'', ''CT'', ''Barcelona'', ''B'', '''',
                         '''', ''41.3888'', ''2.159'', ''4''] = Inr d \<and>
        map_of d ''country_code'' = Some (PStr '''') \<and>
        map_of d ''postal_code'' = Some (PStr ''08001'') \<and>
        map_of d ''place_name'' = Some (PStr '''')) \<and>
   (\<exists>d. map_us_fields [''US'', ''90210'', ''Beverly Hills'', ''California'', ''CA'',
                         ''Los Angeles'', ''037'', '''', '''', ''34.0901'', ''-118.4065'',
                         ''4''] = Inr d \<and>
        map_of d ''country_code'' = Some (PStr ''US'') \<and>
        map_of d ''postal_code'' = Some (PStr ''90210'') \<and>
        map_of d ''place_name'' = Some (PStr ''Beverly Hills''))"
proof (rule conjI)
  let ?row = "['''', ''08001'', '''', ''Cataluna'', ''CT'', ''Barcelona'', ''B'', '''', '''',
              ''41.3888'', ''2.159'', ''4'']"
  have l: "length ?row = 12" by simp
  have f: "map_es_fields = map_es_fields \<or> map_es_fields = map_us_fields" by simp
  have n: "(?row ! 9 = [] \<or> py_float (?row ! 9) \<noteq> None) \<and>
           (?row ! 10 = [] \<or> py_float (?row ! 10) \<noteq> None) \<and>
           (?row ! 11 = [] \<or> py_int (?row ! 11) \<noteq> None)"
    by (simp add: py_parse_defs)
  note w = es_us_identity_fields [of map_es_fields ?row, OF f l]
  from w n have "\<exists>d. map_es_fields ?row = Inr d" by (simp only: simp_thms)
  then obtain d where d: "map_es_fields ?row = Inr d" ..
  from w have "\<forall>d. map_es_fields ?row = Inr d \<longrightarrow>
            map_of d ''country_code'' = Some (PStr (?row ! 0)) \<and>
            map_of d ''postal_code'' = Some (PStr (?row ! 1)) \<and>
            map_of d ''place_name'' = Some (PStr (?row ! 2))"
    by (rule conjunct2)
  with d have "map_of d ''country_code'' = Some (PStr (?row ! 0)) \<and>
            map_of d ''postal_code'' = Some (PStr (?row ! 1)) \<and>
            map_of d ''place_name'' = Some (PStr (?row ! 2))"
    by blast
  then have "map_of d ''country_code'' = Some (PStr '''') \<and>
        map_of d ''postal_code'' = Some (PStr ''08001'') \<and>
        map_of d ''place_name'' = Some (PStr '''')"
    by simp
  with d show "\<exists>d. map_es_fields ?row = Inr d \<and>
        map_of d ''country_code'' = Some (PStr '''') \<and>
        map_of d ''postal_code'' = Some (PStr ''08001'') \<and>
        map_of d ''place_name'' = Some (PStr '''')"
    by (intro exI conjI) (elim conjE, assumption)+
next
  let ?row = "[''US'', ''90210'', ''Beverly Hills'', ''California'', ''CA'', ''Los Angeles'',
               ''037'', '''', '''', ''34.0901'', ''-118.4065'', ''4'']"
  have l: "length ?row = 12" by simp
  have f: "map_us_fields = map_es_fields \<or> map_us_fields = map_us_fields" by simp
  have n: "(?row ! 9 = [] \<or> py_float (?row ! 9) \<noteq> None) \<and>
           (?row ! 10 = [] \<or> py_float (?row ! 10) \<noteq> None) \<and>
           (?row ! 11 = [] \<or> py_int (?row ! 11) \<noteq> None)"
    by (simp add: py_parse_defs)
  note w = es_us_identity_fields [of map_us_fields ?row, OF f l]
  from w n have "\<exists>d. map_us_fields ?row = Inr d" by (simp only: simp_thms)
  then obtain d where d: "map_us_fields ?row = Inr d" ..
  from w have "\<forall>d. map_us_fields ?row = Inr d \<longrightarrow>
            map_of d ''country_code'' = Some (PStr (?row ! 0)) \<and>
            map_of d ''postal_code'' = Some (PStr (?row ! 1)) \<and>
            map_of d ''place_name'' = Some (PStr (?row ! 2))"
    by (rule conjunct2)
  with d have "map_of d ''country_code'' = Some (PStr (?row ! 0)) \<and>
            map_of d ''postal_code'' = Some (PStr (?row ! 1)) \<and>
            map_of d ''place_name'' = Some (PStr (?row ! 2))"
    by blast
  then have "map_of d ''country_code'' = Some (PStr ''US'') \<and>
        map_of d ''postal_code'' = Some (PStr ''90210'') \<and>
        map_of d ''place_name'' = Some (PStr ''Beverly Hills'')"
    by simp
  with d show "\<exists>d. map_us_fields ?row = Inr d \<and>
        map_of d ''country_code'' = Some (PStr ''US'') \<and>
        map_of d ''postal_code'' = Some (PStr ''90210'') \<and>
        map_of d ''place_name'' = Some (PStr ''Beverly Hills'')"
    by (intro exI conjI) (elim conjE, assumption)+
qed

text \<open>
  C8. A row whose cell count is not among the expected ones yields no record: the loop
  adds exactly one to the skipped count, prints one message and leaves the pending
  batch, the processed count and the database as they were. The header test decides
  only which message is printed. The rows after it are processed all the same: the file
  with the row leaves the database and the processed count as the file without it does,
  and reports one skipped row more. The expected counts are 12 for Spain and the US and
  10 or 12 for Canada, so a Canada row of 11 cells is skipped in this way.
\<close>

theorem unexpected_cell_count_skips_row:
  assumes "length row \<notin> set expected"
  shows "classify_row path expected m i row st =
           st\<lparr>skipped_count := skipped_count st + 1,
              out := out st @
                [if i = 0 \<and> is_likely_header row then SkipHeader path row
                 else SkipMalformed (i + 1) path expected (length row) row]\<rparr> \<and>
         mapped_record expected m row = None \<and>
         db (file_loop d path c expected m (pre @ row # post)) =
           db (file_loop d path c expected m (pre @ post)) \<and>
         processed_count (file_loop d path c expected m (pre @ row # post)) =
           processed_count (file_loop d path c expected m (pre @ post)) \<and>
         skipped_count (file_loop d path c expected m (pre @ row # post)) =
           skipped_count (file_loop d path c expected m (pre @ post)) + 1 \<and>
         (length row = 11 \<longrightarrow>
            documents (classify_row path [10, 12] map_ca_fields_flexible i row st) =
              documents st \<and>
            skipped_count (classify_row path [10, 12] map_ca_fields_flexible i row st) =
              skipped_count st + 1) \<and>
         (length row \<noteq> 12 \<longrightarrow>
            (\<forall>f \<in> {map_es_fields, map_us_fields}.
               documents (classify_row path [12] (silent f) i row st) = documents st \<and>
               skipped_count (classify_row path [12] (silent f) i row st) =
                 skipped_count st + 1))"
proof -
  from assms have none: "mapped_record expected m row = None"
    by (simp add: mapped_record_def)
  have eq: "mapped_records expected m (pre @ row # post) = mapped_records expected m (pre @ post)"
    by (rule mapped_records_drop_row [OF none])
  have sk1: "skipped_count (file_loop d path c expected m (pre @ row # post)) +
               length (mapped_records expected m (pre @ post)) = length pre + length post + 1"
    using file_loop_skipped [of d path c expected m "pre @ row # post"] by (simp add: eq)
  have sk0: "skipped_count (file_loop d path c expected m (pre @ post)) +
               length (mapped_records expected m (pre @ post)) = length pre + length post"
    using file_loop_skipped [of d path c expected m "pre @ post"] by simp
  from sk1 sk0 have sk: "skipped_count (file_loop d path c expected m (pre @ row # post)) =
           skipped_count (file_loop d path c expected m (pre @ post)) + 1"
    by arith
  have step: "classify_row path expected m i row st =
           st\<lparr>skipped_count := skipped_count st + 1,
              out := out st @
                [if i = 0 \<and> is_likely_header row then SkipHeader path row
                 else SkipMalformed (i + 1) path expected (length row) row]\<rparr>"
    using assms by (simp add: classify_row_def)
  have dbeq: "db (file_loop d path c expected m (pre @ row # post)) =
           db (file_loop d path c expected m (pre @ post))"
    by (simp add: file_loop_db eq)
  have preq: "processed_count (file_loop d path c expected m (pre @ row # post)) =
           processed_count (file_loop d path c expected m (pre @ post))"
    by (simp add: file_loop_processed eq)
  have ca: "length row = 11 \<longrightarrow>
            documents (classify_row path [10, 12] map_ca_fields_flexible i row st) =
              documents st \<and>
            skipped_count (classify_row path [10, 12] map_ca_fields_flexible i row st) =
              skipped_count st + 1"
    by (simp add: classify_row_def)
  have esus: "length row \<noteq> 12 \<longrightarrow>
            (\<forall>f \<in> {map_es_fields, map_us_fields}.
               documents (classify_row path [12] (silent f) i row st) = documents st \<and>
               skipped_count (classify_row path [12] (silent f) i row st) =
                 skipped_count st + 1)"
    by (simp add: classify_row_def)
  from step none dbeq preq sk ca esus show ?thesis by blast
qed

theorem unexpected_cell_count_skips_row_witness:
  "classify_row ''CA_full.txt'' [10, 12] map_ca_fields_flexible 0
     [''CA'', ''T0A'', ''Eastern Alberta'', ''Alberta'', ''AB'', '''', '''', '''', '''',
      ''54.766'', ''-111.7174'']
     \<lparr>documents = [], processed_count = 0, skipped_count = 0,
      db = \<lparr>contents = Map.empty, calls = []\<rparr>, out = []\<rparr> =
   \<lparr>documents = [], processed_count = 0, skipped_count = 1,
    db = \<lparr>contents = Map.empty, calls = []\<rparr>,
    out = [SkipHeader ''CA_full.txt''
             [''CA'', ''T0A'', ''Eastern Alberta'', ''Alberta'', ''AB'', '''', '''', '''', '''',
              ''54.766'', ''-111.7174'']]\<rparr> \<and>
   skipped_count (file_loop \<lparr>contents = Map.empty, calls = []\<rparr> ''CA_full.txt''
       ''ca_zip_codes'' [10, 12] map_ca_fields_flexible
       ([] @ [''CA'', ''T0A'', ''Eastern Alberta'', ''Alberta'', ''AB'', '''', '''', '''', '''',
              ''54.766'', ''-111.7174''] # [])) =
   skipped_count (file_loop \<lparr>contents = Map.empty, calls = []\<rparr> ''CA_full.txt''
       ''ca_zip_codes'' [10, 12] map_ca_fields_flexible ([] @ [])) + 1"
proof -
  let ?row = "[''CA'', ''T0A'', ''Eastern Alberta'', ''Alberta'', ''AB'', '''', '''', '''', '''',
               ''54.766'', ''-111.7174'']"
  let ?st = "\<lparr>documents = [], processed_count = 0, skipped_count = 0,
      db = \<lparr>contents = Map.empty, calls = []\<rparr>, out = []\<rparr>"
  have n: "length ?row \<notin> set [10, 12]" by simp
  have h: "is_likely_header ?row"
    by (simp add: is_likely_header_def str_isalpha_def str_isdigit_def is_alpha_def is_digit_def)
  note w = unexpected_cell_count_skips_row [of ?row "[10, 12]" "''CA_full.txt''"
      map_ca_fields_flexible 0 ?st "\<lparr>contents = Map.empty, calls = []\<rparr>" "''ca_zip_codes''"
      "[]" "[]", OF n]
  from w have a: "classify_row ''CA_full.txt'' [10, 12] map_ca_fields_flexible 0 ?row ?st =
      ?st\<lparr>skipped_count := skipped_count ?st + 1,
          out := out ?st @
            [if (0::nat) = 0 \<and> is_likely_header ?row then SkipHeader ''CA_full.txt'' ?row
             else SkipMalformed (0 + 1) ''CA_full.txt'' [10, 12] (length ?row) ?row]\<rparr>"
    by (rule conjunct1)
  from w have b: "skipped_count (file_loop \<lparr>contents = Map.empty, calls = []\<rparr> ''CA_full.txt''
       ''ca_zip_codes'' [10, 12] map_ca_fields_flexible ([] @ ?row # [])) =
     skipped_count (file_loop \<lparr>contents = Map.empty, calls = []\<rparr> ''CA_full.txt''
       ''ca_zip_codes'' [10, 12] map_ca_fields_flexible ([] @ [])) + 1"
    by blast
  from a h have c: "classify_row ''CA_full.txt'' [10, 12] map_ca_fields_flexible 0 ?row ?st =
     \<lparr>documents = [], processed_count = 0, skipped_count = 1,
      db = \<lparr>contents = Map.empty, calls = []\<rparr>,
      out = [SkipHeader ''CA_full.txt'' ?row]\<rparr>"
    by simp
  from c b show ?thesis by (rule conjI)
qed

text \<open>
  C9. When the input file of a country does not exist, \<^verbatim>\<open>process_file\<close> returns with the
  database exactly as it was: nothing is dropped and nothing is written. In the whole
  run the collection of that country then holds what it held before the run, since the
  other two files go to other collections.
\<close>

theorem missing_file_leaves_database:
  "(fs path = None \<longrightarrow> process_file fs d path c ex m = (d, [FileNotFound path])) \<and>
   (fs ES_FILE = None \<longrightarrow>
      contents (fst (main fs d)) ''es_zip_codes'' = contents d ''es_zip_codes'') \<and>
   (fs US_FILE = None \<longrightarrow>
      contents (fst (main fs d)) ''us_zip_codes'' = contents d ''us_zip_codes'') \<and>
   (fs CA_FILE = None \<longrightarrow>
      contents (fst (main fs d)) ''ca_zip_codes'' = contents d ''ca_zip_codes'')"
proof (intro conjI impI)
  assume "fs path = None"
  then show "process_file fs d path c ex m = (d, [FileNotFound path])"
    by (rule process_file_missing)
next
  assume "fs ES_FILE = None"
  then show "contents (fst (main fs d)) ''es_zip_codes'' = contents d ''es_zip_codes''"
    by (simp add: main_db process_file_contents_other process_file_missing)
next
  assume "fs US_FILE = None"
  then show "contents (fst (main fs d)) ''us_zip_codes'' = contents d ''us_zip_codes''"
    by (simp add: main_db process_file_contents_other process_file_missing)
next
  assume "fs CA_FILE = None"
  then show "contents (fst (main fs d)) ''ca_zip_codes'' = contents d ''ca_zip_codes''"
    by (simp add: main_db process_file_contents_other process_file_missing)
qed

theorem missing_file_leaves_database_witness:
  "process_file Map.empty
     \<lparr>contents = Map.empty(''ca_zip_codes'' \<mapsto> [[(''country_code'', PStr ''CA'')]]), calls = []\<rparr>
     ''CA_full.txt'' ''ca_zip_codes'' [10, 12] map_ca_fields_flexible =
   (\<lparr>contents = Map.empty(''ca_zip_codes'' \<mapsto> [[(''country_code'', PStr ''CA'')]]), calls = []\<rparr>,
    [FileNotFound ''CA_full.txt'']) \<and>
   contents (fst (main Map.empty
     \<lparr>contents = Map.empty(''ca_zip_codes'' \<mapsto> [[(''country_code'', PStr ''CA'')]]), calls = []\<rparr>))
     ''ca_zip_codes'' = Some [[(''country_code'', PStr ''CA'')]]"
proof -
  let ?d = "\<lparr>contents = Map.empty(''ca_zip_codes'' \<mapsto> [[(''country_code'', PStr ''CA'')]]),
             calls = []\<rparr>"
  have n: "(Map.empty :: filesystem) ''CA_full.txt'' = None" by simp
  have n': "(Map.empty :: filesystem) CA_FILE = None" by simp
  from missing_file_leaves_database [of Map.empty "''CA_full.txt''" ?d "''ca_zip_codes''"
      "[10, 12]" map_ca_fields_flexible] n n'
  show ?thesis by simp
qed

text \<open>
  C10. For every row of 12 cells, the Spain mapper and the US mapper emit a record
  exactly when each numeric cell is empty or converts, and every record they emit
  carries \<open>admin1_name\<close>, \<open>admin1_code\<close>, \<open>admin2_name\<close> and \<open>admin2_code\<close> as the strings
  of cells 3 to 6, so these four fields are never missing and never \<^verbatim>\<open>None\<close>: an empty
  cell gives the empty string. An empty numeric cell, and for Spain an empty \<open>admin3\<close>
  cell, gives \<^verbatim>\<open>None\<close> instead.
\<close>

theorem es_us_admin_fields_verbatim:
  assumes "f = map_es_fields \<or> f = map_us_fields"
    and "length row = 12"
  shows "((\<exists>d. f row = Inr d) \<longleftrightarrow>
            (row ! 9 = [] \<or> py_float (row ! 9) \<noteq> None) \<and>
            (row ! 10 = [] \<or> py_float (row ! 10) \<noteq> None) \<and>
            (row ! 11 = [] \<or> py_int (row ! 11) \<noteq> None)) \<and>
         (\<forall>d. f row = Inr d \<longrightarrow>
            map_of d ''admin1_name'' = Some (PStr (row ! 3)) \<and>
            map_of d ''admin1_code'' = Some (PStr (row ! 4)) \<and>
            map_of d ''admin2_name'' = Some (PStr (row ! 5)) \<and>
            map_of d ''admin2_code'' = Some (PStr (row ! 6)) \<and>
            (\<forall>k \<in> {''admin1_name'', ''admin1_code'', ''admin2_name'', ''admin2_code''}.
               map_of d k \<noteq> None \<and> map_of d k \<noteq> Some PNone) \<and>
            (row ! 9 = [] \<longrightarrow> map_of d ''latitude'' = Some PNone) \<and>
            (row ! 10 = [] \<longrightarrow> map_of d ''longitude'' = Some PNone) \<and>
            (row ! 11 = [] \<longrightarrow> map_of d ''accuracy'' = Some PNone) \<and>
            (f = map_es_fields \<and> row ! 7 = [] \<longrightarrow> map_of d ''admin3_name'' = Some PNone) \<and>
            (f = map_es_fields \<and> row ! 8 = [] \<longrightarrow> map_of d ''admin3_code'' = Some PNone))"
proof (rule conjI)
  show "(\<exists>d. f row = Inr d) \<longleftrightarrow>
            (row ! 9 = [] \<or> py_float (row ! 9) \<noteq> None) \<and>
            (row ! 10 = [] \<or> py_float (row ! 10) \<noteq> None) \<and>
            (row ! 11 = [] \<or> py_int (row ! 11) \<noteq> None)"
    by (rule es_us_returns_iff [OF assms])
next
  show "\<forall>d. f row = Inr d \<longrightarrow>
            map_of d ''admin1_name'' = Some (PStr (row ! 3)) \<and>
            map_of d ''admin1_code'' = Some (PStr (row ! 4)) \<and>
            map_of d ''admin2_name'' = Some (PStr (row ! 5)) \<and>
            map_of d ''admin2_code'' = Some (PStr (row ! 6)) \<and>
            (\<forall>k \<in> {''admin1_name'', ''admin1_code'', ''admin2_name'', ''admin2_code''}.
               map_of d k \<noteq> None \<and> map_of d k \<noteq> Some PNone) \<and>
            (row ! 9 = [] \<longrightarrow> map_of d ''latitude'' = Some PNone) \<and>
            (row ! 10 = [] \<longrightarrow> map_of d ''longitude'' = Some PNone) \<and>
            (row ! 11 = [] \<longrightarrow> map_of d ''accuracy'' = Some PNone) \<and>
            (f = map_es_fields \<and> row ! 7 = [] \<longrightarrow> map_of d ''admin3_name'' = Some PNone) \<and>
            (f = map_es_fields \<and> row ! 8 = [] \<longrightarrow> map_of d ''admin3_code'' = Some PNone)"
    using assms
    by (auto simp add: map_es_fields_12 map_us_fields_12 bind_def str_or_none_def
        float_or_none_def int_or_none_def split: sum.splits)
qed

theorem es_us_admin_fields_verbatim_witness:
  "(\<exists>d. map_es_fields [''ES'', ''04001'', ''Almeria'', '''', '''', '''', '''', '''', '''',
                         ''36.8381'', '''', ''4''] = Inr d \<and>
        map_of d ''admin1_name'' = Some (PStr '''') \<and>
        map_of d ''admin1_code'' = Some (PStr '''') \<and>
        map_of d ''admin2_name'' = Some (PStr '''') \<and>
        map_of d ''admin2_code'' = Some (PStr '''') \<and>
        map_of d ''admin3_name'' = Some PNone \<and>
        map_of d ''longitude'' = Some PNone) \<and>
   (\<exists>d. map_us_fields [''US'', ''99999'', ''Nowhere'', '''', '''', '''', '''', '''', '''', '''',
                         '''', ''''] = Inr d \<and>
        map_of d ''admin1_name'' = Some (PStr '''') \<and>
        map_of d ''admin1_code'' = Some (PStr '''') \<and>
        map_of d ''admin2_name'' = Some (PStr '''') \<and>
        map_of d ''admin2_code'' = Some (PStr '''') \<and>
        map_of d ''latitude'' = Some PNone)"
proof (rule conjI)
  let ?row = "[''ES'', ''04001'', ''Almeria'', '''', '''', '''', '''', '''', '''',
               ''36.8381'', '''', ''4'']"
  have l: "length ?row = 12" by simp
  have f: "map_es_fields = map_es_fields \<or> map_es_fields = map_us_fields" by simp
  have n: "(?row ! 9 = [] \<or> py_float (?row ! 9) \<noteq> None) \<and>
           (?row ! 10 = [] \<or> py_float (?row ! 10) \<noteq> None) \<and>
           (?row ! 11 = [] \<or> py_int (?row ! 11) \<noteq> None)"
    by (simp add: py_parse_defs)
  note w = es_us_admin_fields_verbatim [of map_es_fields ?row, OF f l]
  from w n have "\<exists>d. map_es_fields ?row = Inr d" by (simp only: simp_thms)
  then obtain d where d: "map_es_fields ?row = Inr d" ..
  from w [THEN conjunct2, rule_format, OF d]
  have "map_of d ''admin1_name'' = Some (PStr '''') \<and>
        map_of d ''admin1_code'' = Some (PStr '''') \<and>
        map_of d ''admin2_name'' = Some (PStr '''') \<and>
        map_of d ''admin2_code'' = Some (PStr '''') \<and>
        map_of d ''admin3_name'' = Some PNone \<and>
        map_of d ''longitude'' = Some PNone"
    by simp
  with d show "\<exists>d. map_es_fields ?row = Inr d \<and>
        map_of d ''admin1_name'' = Some (PStr '''') \<and>
        map_of d ''admin1_code'' = Some (PStr '''') \<and>
        map_of d ''admin2_name'' = Some (PStr '''') \<and>
        map_of d ''admin2_code'' = Some (PStr '''') \<and>
        map_of d ''admin3_name'' = Some PNone \<and>
        map_of d ''longitude'' = Some PNone"
    by (intro exI conjI) (elim conjE, assumption)+
next
  let ?row = "[''US'', ''99999'', ''Nowhere'', '''', '''', '''', '''', '''', '''', '''', '''', '''']"
  have l: "length ?row = 12" by simp
  have f: "map_us_fields = map_es_fields \<or> map_us_fields = map_us_fields" by simp
  have n: "(?row ! 9 = [] \<or> py_float (?row ! 9) \<noteq> None) \<and>
           (?row ! 10 = [] \<or> py_float (?row ! 10) \<noteq> None) \<and>
           (?row ! 11 = [] \<or> py_int (?row ! 11) \<noteq> None)"
    by simp
  note w = es_us_admin_fields_verbatim [of map_us_fields ?row, OF f l]
  from w n have "\<exists>d. map_us_fields ?row = Inr d" by (simp only: simp_thms)
  then obtain d where d: "map_us_fields ?row = Inr d" ..
  from w [THEN conjunct2, rule_format, OF d]
  have "map_of d ''admin1_name'' = Some (PStr '''') \<and>
        map_of d ''admin1_code'' = Some (PStr '''') \<and>
        map_of d ''admin2_name'' = Some (PStr '''') \<and>
        map_of d ''admin2_code'' = Some (PStr '''') \<and>
        map_of d ''latitude'' = Some PNone"
    by simp
  with d show "\<exists>d. map_us_fields ?row = Inr d \<and>
        map_of d ''admin1_name'' = Some (PStr '''') \<and>
        map_of d ''admin1_code'' = Some (PStr '''') \<and>
        map_of d ''admin2_name'' = Some (PStr '''') \<and>
        map_of d ''admin2_code'' = Some (PStr '''') \<and>
        map_of d ''latitude'' = Some PNone"
    by (intro exI conjI) (elim conjE, assumption)+
qed

end
